theory Spec2Isabelle
  imports Main
begin

section \<open>JavaScript values\<close>

text \<open>
  The error-handler registry (\<^verbatim>\<open>core/helpers/error-handler-registry.helper.js\<close>), the
  response helper (\<^verbatim>\<open>core/helpers/response.helper.js\<close>) and the terminal middleware
  (\<^verbatim>\<open>core/middlewares/error-handler.middleware.js\<close>) are dynamically typed: an error,
  a thrown value, a request or a field of any of them may be any JavaScript value. The
  embedding therefore works on a datatype of values.

  \<^item> A function value is identified by \<open>fid\<close>; it carries its \<open>name\<close> property and
    whether it owns a \<open>prototype\<close> object (classes and \<^verbatim>\<open>function\<close> declarations do,
    arrow functions and built-in methods do not).
  \<^item> An object carries its prototype chain, written as the list of the constructors
    whose \<open>prototype\<close> objects lie on the chain (nearest first), and the data properties
    a read finds on it, in insertion order.
  \<^item> A promise is represented by its settlement.
  \<^item> Numbers are the integers; \<^verbatim>\<open>NaN\<close>, the infinities and fractions are not
    represented. Arrays, symbols, accessors and proxies are not represented either.
\<close>

datatype func = Func (fid: nat) (fname: string) (has_prototype: bool)

datatype jsval =
    JUndefined
  | JNull
  | JBool bool
  | JNum int
  | JStr string
  | JFun func
  | JObj "func list" "(string \<times> jsval) list"
  | JPending
  | JFulfilled jsval
  | JRejected jsval

text \<open>A call either throws a value (\<open>Inl\<close>) or returns one (\<open>Inr\<close>).\<close>

type_synonym 'a completion = "jsval + 'a"

subsection \<open>Built-in and repository constructors\<close>

definition Object_ctor :: func where "Object_ctor = Func 0 ''Object'' True"
definition Function_ctor :: func where "Function_ctor = Func 1 ''Function'' True"
definition Boolean_ctor :: func where "Boolean_ctor = Func 2 ''Boolean'' True"
definition Number_ctor :: func where "Number_ctor = Func 3 ''Number'' True"
definition String_ctor :: func where "String_ctor = Func 4 ''String'' True"
definition Promise_ctor :: func where "Promise_ctor = Func 5 ''Promise'' True"
definition Error_ctor :: func where "Error_ctor = Func 6 ''Error'' True"
definition TypeError_ctor :: func where "TypeError_ctor = Func 7 ''TypeError'' True"
definition HttpResponse :: func where "HttpResponse = Func 8 ''HttpResponse'' True"
definition BaseException :: func where "BaseException = Func 9 ''BaseException'' True"
definition Promise_then :: func where "Promise_then = Func 10 ''then'' False"
definition Promise_catch :: func where "Promise_catch = Func 11 ''catch'' False"

lemmas ctor_defs =
  Object_ctor_def Function_ctor_def Boolean_ctor_def Number_ctor_def String_ctor_def
  Promise_ctor_def Error_ctor_def TypeError_ctor_def HttpResponse_def BaseException_def
  Promise_then_def Promise_catch_def

text \<open>
  \<^verbatim>\<open>new Error(msg)\<close> and the \<^verbatim>\<open>TypeError\<close> the engine raises. The engine's \<open>stack\<close>
  string starts with the line \<^verbatim>\<open>Name: message\<close>; the frames after it are left out.
\<close>

definition new_Error :: "string \<Rightarrow> jsval" where
  "new_Error msg =
     JObj [Error_ctor, Object_ctor]
       [(''message'', JStr msg), (''name'', JStr ''Error''),
        (''stack'', JStr (''Error: '' @ msg))]"

definition new_TypeError :: "string \<Rightarrow> jsval" where
  "new_TypeError msg =
     JObj [TypeError_ctor, Error_ctor, Object_ctor]
       [(''message'', JStr msg), (''name'', JStr ''TypeError''),
        (''stack'', JStr (''TypeError: '' @ msg))]"

subsection \<open>Operators\<close>

definition is_nullish :: "jsval \<Rightarrow> bool" where
  "is_nullish v = (v = JUndefined \<or> v = JNull)"

text \<open>\<^verbatim>\<open>ToBoolean\<close>: what \<^verbatim>\<open>if (v)\<close>, \<^verbatim>\<open>!v\<close>, \<^verbatim>\<open>a || b\<close> and \<^verbatim>\<open>a && b\<close> test.\<close>

definition truthy :: "jsval \<Rightarrow> bool" where
  "truthy v =
     (case v of
        JUndefined \<Rightarrow> False
      | JNull \<Rightarrow> False
      | JBool b \<Rightarrow> b
      | JNum n \<Rightarrow> n \<noteq> 0
      | JStr s \<Rightarrow> s \<noteq> []
      | _ \<Rightarrow> True)"

text \<open>\<^verbatim>\<open>typeof v === 'function'\<close>.\<close>

definition is_function :: "jsval \<Rightarrow> bool" where
  "is_function v = (case v of JFun f \<Rightarrow> True | _ \<Rightarrow> False)"

definition js_or :: "jsval \<Rightarrow> jsval \<Rightarrow> jsval" where
  "js_or a b = (if truthy a then a else b)"

definition nullish_coalesce :: "jsval \<Rightarrow> jsval \<Rightarrow> jsval" where
  "nullish_coalesce a b = (if is_nullish a then b else a)"

text \<open>
  A property read \<^verbatim>\<open>v.p\<close> on a value that is neither \<^verbatim>\<open>null\<close> nor \<^verbatim>\<open>undefined\<close>.
  Of the members an object inherits from the built-in prototypes, the ones the program
  reads are represented: \<open>constructor\<close>, a function's \<open>name\<close>, a string's \<open>length\<close>
  and first character, and a promise's \<open>then\<close> and \<open>catch\<close>.
\<close>

definition promise_member :: "string \<Rightarrow> jsval" where
  "promise_member p =
     (if p = ''constructor'' then JFun Promise_ctor
      else if p = ''then'' then JFun Promise_then
      else if p = ''catch'' then JFun Promise_catch
      else JUndefined)"

definition js_get :: "jsval \<Rightarrow> string \<Rightarrow> jsval" where
  "js_get v p =
     (case v of
        JObj chain fs \<Rightarrow>
          (case map_of fs p of
             Some x \<Rightarrow> x
           | None \<Rightarrow>
               (if p = ''constructor''
                then (case chain of [] \<Rightarrow> JUndefined | c # _ \<Rightarrow> JFun c)
                else JUndefined))
      | JFun f \<Rightarrow>
          (if p = ''constructor'' then JFun Function_ctor
           else if p = ''name'' then JStr (fname f)
           else JUndefined)
      | JBool b \<Rightarrow> (if p = ''constructor'' then JFun Boolean_ctor else JUndefined)
      | JNum n \<Rightarrow> (if p = ''constructor'' then JFun Number_ctor else JUndefined)
      | JStr s \<Rightarrow>
          (if p = ''constructor'' then JFun String_ctor
           else if p = ''length'' then JNum (int (length s))
           else if p = ''0'' then (case s of [] \<Rightarrow> JUndefined | c # _ \<Rightarrow> JStr [c])
           else JUndefined)
      | JUndefined \<Rightarrow> JUndefined
      | JNull \<Rightarrow> JUndefined
      | JPending \<Rightarrow> promise_member p
      | JFulfilled x \<Rightarrow> promise_member p
      | JRejected x \<Rightarrow> promise_member p)"

text \<open>\<^verbatim>\<open>v.p\<close>: a \<^verbatim>\<open>TypeError\<close> when \<open>v\<close> is \<^verbatim>\<open>null\<close> or \<^verbatim>\<open>undefined\<close>.\<close>

definition member :: "jsval \<Rightarrow> string \<Rightarrow> jsval completion" where
  "member v p =
     (if is_nullish v
      then Inl (new_TypeError (''Cannot read properties of null or undefined (reading '' @ p @ '')''))
      else Inr (js_get v p))"

text \<open>\<^verbatim>\<open>v?.p\<close>.\<close>

definition opt_member :: "jsval \<Rightarrow> string \<Rightarrow> jsval" where
  "opt_member v p = (if is_nullish v then JUndefined else js_get v p)"

text \<open>The prototype chain of a value; a primitive has none of its own.\<close>

definition proto_chain :: "jsval \<Rightarrow> func list option" where
  "proto_chain v =
     (case v of
        JObj chain fs \<Rightarrow> Some chain
      | JFun f \<Rightarrow> Some [Function_ctor, Object_ctor]
      | JPending \<Rightarrow> Some [Promise_ctor, Object_ctor]
      | JFulfilled x \<Rightarrow> Some [Promise_ctor, Object_ctor]
      | JRejected x \<Rightarrow> Some [Promise_ctor, Object_ctor]
      | _ \<Rightarrow> None)"

text \<open>
  \<^verbatim>\<open>v instanceof K\<close> for a function \<open>K\<close>: \<^verbatim>\<open>false\<close> when \<open>v\<close> is a primitive; otherwise
  a \<^verbatim>\<open>TypeError\<close> when \<open>K\<close> has no \<open>prototype\<close> object, and else whether that
  prototype lies on the chain of \<open>v\<close>.
\<close>

definition instanceof :: "jsval \<Rightarrow> func \<Rightarrow> bool completion" where
  "instanceof v K =
     (case proto_chain v of
        None \<Rightarrow> Inr False
      | Some chain \<Rightarrow>
          (if has_prototype K then Inr (K \<in> set chain)
           else Inl (new_TypeError ''Function has non-object prototype in instanceof check'')))"

definition is_TypeError :: "jsval \<Rightarrow> bool" where
  "is_TypeError v = (instanceof v TypeError_ctor = Inr True)"

section \<open>The handler registry\<close>

text \<open>
  \<^verbatim>\<open>const errorHandlerRegistry = new Map()\<close>, "Format: Map<constructor, handlerFunction>".
  A \<^verbatim>\<open>Map\<close> iterates in insertion order, so its contents are an association list.
  \<^verbatim>\<open>Map.prototype.set\<close> replaces the value of a key that is present, in place, and
  appends a key that is not.
\<close>

type_synonym registry = "(func \<times> func) list"

fun map_set :: "'k \<Rightarrow> 'v \<Rightarrow> ('k \<times> 'v) list \<Rightarrow> ('k \<times> 'v) list" where
  "map_set k v [] = [(k, v)]"
| "map_set k v ((k', v') # rest) =
     (if k' = k then (k, v) # rest else (k', v') # map_set k v rest)"

definition map_delete :: "'k \<Rightarrow> ('k \<times> 'v) list \<Rightarrow> ('k \<times> 'v) list" where
  "map_delete k m = filter (\<lambda>e. fst e \<noteq> k) m"

definition map_clear :: "('k \<times> 'v) list \<Rightarrow> ('k \<times> 'v) list" where
  "map_clear m = []"

text \<open>\<^verbatim>\<open>new Map(iterable)\<close>: the entries are \<open>set\<close> one after the other.\<close>

definition new_Map :: "('k \<times> 'v) list \<Rightarrow> ('k \<times> 'v) list" where
  "new_Map entries = foldl (\<lambda>m e. map_set (fst e) (snd e) m) [] entries"

text \<open>
  \<^verbatim>\<open>
  export function registerErrorHandler(ExceptionClass, handler) {
    if (typeof ExceptionClass !== 'function') {
      throw new Error('ExceptionClass must be a constructor function');
    }
    if (typeof handler !== 'function') {
      throw new Error('Handler must be a function');
    }
    errorHandlerRegistry.set(ExceptionClass, handler);
  }
  \<close>
  The registry is passed in and the updated registry is returned.
\<close>

definition registerErrorHandler :: "registry \<Rightarrow> jsval \<Rightarrow> jsval \<Rightarrow> registry completion" where
  "registerErrorHandler reg ExceptionClass handler =
     (case ExceptionClass of
        JFun k \<Rightarrow>
          (case handler of
             JFun h \<Rightarrow> Inr (map_set k h reg)
           | _ \<Rightarrow> Inl (new_Error ''Handler must be a function''))
      | _ \<Rightarrow> Inl (new_Error ''ExceptionClass must be a constructor function''))"

text \<open>
  \<^verbatim>\<open>
  export function findErrorHandler(err) {
    for (const [ExceptionClass, handler] of errorHandlerRegistry) {
      if (err.constructor === ExceptionClass) return handler;
    }
    for (const [ExceptionClass, handler] of errorHandlerRegistry) {
      if (err instanceof ExceptionClass) return handler;
    }
    return null;
  }
  \<close>
  Each loop is a recursion over the entries; \<open>None\<close> is the \<^verbatim>\<open>null\<close> the function
  returns. \<open>err.constructor\<close> is read once per entry, so nothing is read when the
  registry is empty.
\<close>

fun exact_scan :: "jsval \<Rightarrow> registry \<Rightarrow> func option completion" where
  "exact_scan err [] = Inr None"
| "exact_scan err ((ExceptionClass, handler) # rest) =
     (case member err ''constructor'' of
        Inl e \<Rightarrow> Inl e
      | Inr c \<Rightarrow> if c = JFun ExceptionClass then Inr (Some handler) else exact_scan err rest)"

fun inheritance_scan :: "jsval \<Rightarrow> registry \<Rightarrow> func option completion" where
  "inheritance_scan err [] = Inr None"
| "inheritance_scan err ((ExceptionClass, handler) # rest) =
     (case instanceof err ExceptionClass of
        Inl e \<Rightarrow> Inl e
      | Inr b \<Rightarrow> if b then Inr (Some handler) else inheritance_scan err rest)"

definition findErrorHandler :: "registry \<Rightarrow> jsval \<Rightarrow> func option completion" where
  "findErrorHandler reg err =
     (case exact_scan err reg of
        Inl e \<Rightarrow> Inl e
      | Inr (Some handler) \<Rightarrow> Inr (Some handler)
      | Inr None \<Rightarrow> inheritance_scan err reg)"

text \<open>\<^verbatim>\<open>clearRegistry()\<close>: \<^verbatim>\<open>errorHandlerRegistry.clear()\<close>.\<close>

definition clearRegistry :: "registry \<Rightarrow> registry" where
  "clearRegistry reg = map_clear reg"

section \<open>The engine, the clock and the configuration\<close>

text \<open>
  What the program reads from its environment is a parameter of the model: the clock
  (\<^verbatim>\<open>new Date().toISOString()\<close>, \<^verbatim>\<open>Date.now()\<close>), \<^verbatim>\<open>Math.random()\<close>,
  \<^verbatim>\<open>process.env.NODE_ENV\<close>, the engine's reading of a string as a number, its
  conversions of an object (a function, a promise) to a number and to a string, which run
  the object's own conversion methods and so may throw, Node's \<^verbatim>\<open>http.STATUS_CODES\<close>
  table, and the behaviour of the function values that are not defined in these modules
  (the registered handlers, a request's \<open>get\<close>): \<open>call f args\<close> is what calling \<open>f\<close>
  throws or returns. One clock reading serves a whole call. Output to the console is not
  represented; the values computed for it are, because computing them can throw.
\<close>

record runtime =
  now_iso :: string
  date_now :: string
  random_token :: string
  node_env :: "string option"
  string_to_Number :: "string \<Rightarrow> int option"
  object_to_Number :: "jsval \<Rightarrow> int option completion"
  object_to_String :: "jsval \<Rightarrow> string completion"
  STATUS_CODES :: jsval
  call :: "func \<Rightarrow> jsval list \<Rightarrow> jsval completion"

text \<open>\<^verbatim>\<open>core/config/http-options.config.js\<close>: the flags \<open>HttpResponse.send\<close> reads.\<close>

record http_options =
  USE_STATUS_CODE_IN_RESPONSE :: bool
  SET_DEFAULT_HTTP_STATUS_CODE :: bool
  DEFAULT_HTTP_STATUS_CODE :: jsval

text \<open>\<^verbatim>\<open>core/constants/http-status.constant.js\<close>.\<close>

abbreviation OK :: jsval where "OK \<equiv> JNum 200"
abbreviation BAD_REQUEST :: jsval where "BAD_REQUEST \<equiv> JNum 400"
abbreviation UNAUTHORIZED :: jsval where "UNAUTHORIZED \<equiv> JNum 401"
abbreviation FORBIDDEN :: jsval where "FORBIDDEN \<equiv> JNum 403"
abbreviation NOT_FOUND :: jsval where "NOT_FOUND \<equiv> JNum 404"
abbreviation CONFLICT :: jsval where "CONFLICT \<equiv> JNum 409"
abbreviation INTERNAL_SERVER_ERROR :: jsval where "INTERNAL_SERVER_ERROR \<equiv> JNum 500"

text \<open>
  \<^verbatim>\<open>ToNumber\<close>, with \<open>None\<close> for \<^verbatim>\<open>NaN\<close>, and the comparisons \<^verbatim>\<open>v >= n\<close> and
  \<^verbatim>\<open>v < n\<close> with a number on the right, which are false on \<^verbatim>\<open>NaN\<close>. Only the
  conversion of an object can throw.
\<close>

definition js_to_number :: "runtime \<Rightarrow> jsval \<Rightarrow> int option completion" where
  "js_to_number rt v =
     (case v of
        JUndefined \<Rightarrow> Inr None
      | JNull \<Rightarrow> Inr (Some 0)
      | JBool b \<Rightarrow> Inr (Some (if b then 1 else 0))
      | JNum n \<Rightarrow> Inr (Some n)
      | JStr s \<Rightarrow> Inr (string_to_Number rt s)
      | _ \<Rightarrow> object_to_Number rt v)"

definition js_ge :: "runtime \<Rightarrow> jsval \<Rightarrow> int \<Rightarrow> bool completion" where
  "js_ge rt v n =
     (case js_to_number rt v of
        Inl e \<Rightarrow> Inl e
      | Inr None \<Rightarrow> Inr False
      | Inr (Some x) \<Rightarrow> Inr (n \<le> x))"

definition js_lt :: "runtime \<Rightarrow> jsval \<Rightarrow> int \<Rightarrow> bool completion" where
  "js_lt rt v n =
     (case js_to_number rt v of
        Inl e \<Rightarrow> Inl e
      | Inr None \<Rightarrow> Inr False
      | Inr (Some x) \<Rightarrow> Inr (x < n))"

subsection \<open>Strings and object literals\<close>

function digits :: "nat \<Rightarrow> string" where
  "digits n =
     (if n < 10 then [char_of (48 + n)]
      else digits (n div 10) @ [char_of (48 + n mod 10)])"
  by pat_completeness auto
termination
  by (relation "measure (\<lambda>n. n)") auto

text \<open>\<^verbatim>\<open>String(v)\<close> and the conversion a template literal applies.\<close>

definition js_String :: "runtime \<Rightarrow> jsval \<Rightarrow> string completion" where
  "js_String rt v =
     (case v of
        JUndefined \<Rightarrow> Inr ''undefined''
      | JNull \<Rightarrow> Inr ''null''
      | JBool b \<Rightarrow> Inr (if b then ''true'' else ''false'')
      | JNum n \<Rightarrow> Inr (if n < 0 then ''-'' @ digits (nat (- n)) else digits (nat n))
      | JStr s \<Rightarrow> Inr s
      | _ \<Rightarrow> object_to_String rt v)"

text \<open>
  The entries \<^verbatim>\<open>{...v}\<close> copies and \<^verbatim>\<open>Object.keys(v)\<close> lists: the properties of an
  object (all taken to be own and enumerable), the indexed characters of a string,
  nothing for any other value.
\<close>

definition own_entries :: "jsval \<Rightarrow> (string \<times> jsval) list" where
  "own_entries v =
     (case v of
        JObj chain fs \<Rightarrow> fs
      | JStr s \<Rightarrow> map (\<lambda>i. (digits i, JStr [s ! i])) [0..<length s]
      | _ \<Rightarrow> [])"

text \<open>
  An object literal assigns its entries from left to right: a key written twice keeps
  its first position and its last value. (JavaScript lists keys that are array indices
  before the others; here they stay where they were inserted, which no property below
  depends on.)
\<close>

definition object_literal :: "(string \<times> jsval) list \<Rightarrow> jsval" where
  "object_literal entries =
     JObj [Object_ctor] (foldl (\<lambda>m e. map_set (fst e) (snd e) m) [] entries)"

text \<open>A default parameter value replaces \<^verbatim>\<open>undefined\<close> only.\<close>

definition default_param :: "jsval \<Rightarrow> jsval \<Rightarrow> jsval" where
  "default_param v d = (if v = JUndefined then d else v)"

section \<open>The exception model\<close>

text \<open>
  \<^verbatim>\<open>
  constructor(message = 'Error', options = {}) {
    const { cause, ...opts } = options || {};
    super(message, cause ? { cause } : undefined);
    if (cause) this.cause = cause;
    this.statusCode = opts.statusCode ?? HTTP_STATUS.INTERNAL_SERVER_ERROR;
    this.errorCode = opts.errorCode;
    this.isOperational =
      opts.isOperational !== undefined ? Boolean(opts.isOperational) : true;
    this.correlationId = opts.correlationId;
    this.data = opts.data ?? null;
    this.metadata = { timestamp: new Date().toISOString(), ...opts.metadata };
    this.meta = this.metadata;
    this.name = this.constructor.name;
    Error.captureStackTrace(this, this.constructor);
  }
  \<close>
  \<open>cls\<close> is the class being constructed (\<open>this.constructor\<close>) and \<open>ancestors\<close>
  the rest of its prototype chain, which ends in \<open>Error\<close>, \<open>Object\<close>. Converting the
  message to a string is the one step that can throw.
\<close>

definition new_BaseException ::
  "runtime \<Rightarrow> func \<Rightarrow> func list \<Rightarrow> jsval \<Rightarrow> jsval \<Rightarrow> jsval completion" where
  "new_BaseException rt cls ancestors message0 options0 =
     (let message = default_param message0 (JStr ''Error'');
          options = js_or (default_param options0 (object_literal [])) (object_literal []);
          cause = js_get options ''cause''
      in case js_String rt message of
           Inl e \<Rightarrow> Inl e
         | Inr shown \<Rightarrow>
             Inr (JObj (cls # ancestors)
                    (foldl (\<lambda>m e. map_set (fst e) (snd e) m) []
                       ([(''message'', JStr shown)] @
                        (if truthy cause then [(''cause'', cause)] else []) @
                        [(''statusCode'',
                            nullish_coalesce (js_get options ''statusCode'') INTERNAL_SERVER_ERROR),
                         (''errorCode'', js_get options ''errorCode''),
                         (''isOperational'',
                            (if js_get options ''isOperational'' \<noteq> JUndefined
                             then JBool (truthy (js_get options ''isOperational''))
                             else JBool True)),
                         (''correlationId'', js_get options ''correlationId''),
                         (''data'', nullish_coalesce (js_get options ''data'') JNull),
                         (''metadata'',
                            object_literal ((''timestamp'', JStr (now_iso rt)) #
                              own_entries (js_get options ''metadata''))),
                         (''meta'',
                            object_literal ((''timestamp'', JStr (now_iso rt)) #
                              own_entries (js_get options ''metadata''))),
                         (''name'', JStr (fname cls)),
                         (''stack'', JStr (fname cls @ '': '' @ shown))]))))"

text \<open>An assignment \<^verbatim>\<open>obj.p = v\<close> made after construction.\<close>

definition js_set :: "jsval \<Rightarrow> string \<Rightarrow> jsval \<Rightarrow> jsval" where
  "js_set obj p v = (case obj of JObj chain fs \<Rightarrow> JObj chain (map_set p v fs) | _ \<Rightarrow> obj)"

section \<open>The response helper\<close>

text \<open>
  \<^verbatim>\<open>
  export function safeGet(obj, key, defaultValue = undefined) {
    if (obj == null) return defaultValue;
    const k = String(key);
    if (Object.hasOwn(obj, k)) return obj[k];
    return defaultValue;
  }
  export function getStatusText(code) {
    return safeGet(STATUS_CODES, String(code), '');
  }
  \<close>
\<close>

definition safeGet :: "runtime \<Rightarrow> jsval \<Rightarrow> jsval \<Rightarrow> jsval \<Rightarrow> jsval completion" where
  "safeGet rt obj key defaultValue =
     (if is_nullish obj then Inr defaultValue
      else (case js_String rt key of
              Inl e \<Rightarrow> Inl e
            | Inr k \<Rightarrow>
                (case map_of (own_entries obj) k of
                   Some v \<Rightarrow> Inr v
                 | None \<Rightarrow> Inr defaultValue)))"

definition getStatusText :: "runtime \<Rightarrow> jsval \<Rightarrow> jsval completion" where
  "getStatusText rt code =
     (case js_String rt code of
        Inl e \<Rightarrow> Inl e
      | Inr shown \<Rightarrow> safeGet rt (STATUS_CODES rt) (JStr shown) (JStr []))"

text \<open>
  \<^verbatim>\<open>
  constructor(data, message, statusCode = HTTP_STATUS.OK, meta = {}) {
    this.data = data;
    this.message = message ?? getStatusText(statusCode);
    this.statusCode = statusCode;
    this.success = statusCode >= HTTP_STATUS.OK && statusCode < 300;
    this.meta = { timestamp: new Date().toISOString(), ...meta };
  }
  static error(message = 'Error', statusCode = HTTP_STATUS.INTERNAL_SERVER_ERROR,
               errorDetails = null, meta = {}) {
    return new HttpResponse(errorDetails, message, statusCode, meta);
  }
  \<close>
\<close>

definition is_success :: "runtime \<Rightarrow> jsval \<Rightarrow> bool completion" where
  "is_success rt statusCode =
     (case js_ge rt statusCode 200 of
        Inl e \<Rightarrow> Inl e
      | Inr reached \<Rightarrow> if reached then js_lt rt statusCode 300 else Inr False)"

definition new_HttpResponse ::
  "runtime \<Rightarrow> jsval \<Rightarrow> jsval \<Rightarrow> jsval \<Rightarrow> jsval \<Rightarrow> jsval completion" where
  "new_HttpResponse rt data message statusCode0 meta0 =
     (let statusCode = default_param statusCode0 OK;
          meta = default_param meta0 (object_literal [])
      in case (if is_nullish message then getStatusText rt statusCode else Inr message) of
           Inl e \<Rightarrow> Inl e
         | Inr shown \<Rightarrow>
             (case is_success rt statusCode of
                Inl e \<Rightarrow> Inl e
              | Inr success \<Rightarrow>
                  Inr (JObj [HttpResponse, Object_ctor]
                         [(''data'', data),
                          (''message'', shown),
                          (''statusCode'', statusCode),
                          (''success'', JBool success),
                          (''meta'',
                             object_literal
                               ((''timestamp'', JStr (now_iso rt)) # own_entries meta))])))"

definition HttpResponse_error ::
  "runtime \<Rightarrow> jsval \<Rightarrow> jsval \<Rightarrow> jsval \<Rightarrow> jsval \<Rightarrow> jsval completion" where
  "HttpResponse_error rt message statusCode errorDetails meta =
     new_HttpResponse rt
       (default_param errorDetails JNull)
       (default_param message (JStr ''Error''))
       (default_param statusCode INTERNAL_SERVER_ERROR)
       (default_param meta (object_literal []))"

section \<open>The fallback response builder\<close>

text \<open>
  \<^verbatim>\<open>
  function isRetryableError(error) {
    const nonRetryableStatusCodes = [
      HTTP_STATUS.BAD_REQUEST, HTTP_STATUS.UNAUTHORIZED, HTTP_STATUS.FORBIDDEN,
      HTTP_STATUS.NOT_FOUND, HTTP_STATUS.CONFLICT,
    ];
    if (error?.statusCode && nonRetryableStatusCodes.includes(error.statusCode)) {
      return false;
    }
    return true;
  }
  \<close>
\<close>

definition nonRetryableStatusCodes :: "jsval list" where
  "nonRetryableStatusCodes = [BAD_REQUEST, UNAUTHORIZED, FORBIDDEN, NOT_FOUND, CONFLICT]"

definition isRetryableError :: "jsval \<Rightarrow> bool" where
  "isRetryableError error =
     (if truthy (opt_member error ''statusCode'') \<and>
         opt_member error ''statusCode'' \<in> set nonRetryableStatusCodes
      then False else True)"

text \<open>
  \<^verbatim>\<open>
  function generateSafeCorrelationId() {
    return `fallback_${Date.now()}_${Math.random().toString(36).substr(2, 8)}`;
  }
  \<close>
\<close>

definition generateSafeCorrelationId :: "runtime \<Rightarrow> jsval" where
  "generateSafeCorrelationId rt = JStr (''fallback_'' @ date_now rt @ ''_'' @ random_token rt)"

text \<open>
  \<^verbatim>\<open>handlerError?.stack?.split('\n')?.[0]\<close>: the chain stops at a \<open>stack\<close> that is
  \<^verbatim>\<open>null\<close> or \<^verbatim>\<open>undefined\<close>; on any other \<open>stack\<close> the member \<open>split\<close> is called.
  A string has it (the result starts with the text before the first line feed); on
  another value it is whatever the value holds under that name, and calling what is not
  a function is a \<^verbatim>\<open>TypeError\<close>.
\<close>

definition stack_first_line :: "runtime \<Rightarrow> jsval \<Rightarrow> jsval completion" where
  "stack_first_line rt handlerError =
     (let stack = opt_member handlerError ''stack'' in
      if is_nullish stack then Inr JUndefined
      else (case stack of
              JStr s \<Rightarrow> Inr (JStr (takeWhile (\<lambda>c. c \<noteq> CHR 0x0A) s))
            | _ \<Rightarrow>
                (case js_get stack ''split'' of
                   JFun f \<Rightarrow>
                     (case call rt f [JStr [CHR 0x0A]] of
                        Inl e \<Rightarrow> Inl e
                      | Inr parts \<Rightarrow> Inr (opt_member parts ''0''))
                 | _ \<Rightarrow> Inl (new_TypeError ''handlerError?.stack?.split is not a function''))))"

text \<open>
  \<^verbatim>\<open>req ? { method: req.method, path: req.path, ip: req.ip,
            userAgent: req.get?.('user-agent') } : null\<close>
\<close>

definition request_context :: "runtime \<Rightarrow> jsval \<Rightarrow> jsval completion" where
  "request_context rt req =
     (if truthy req then
        (case (if is_nullish (js_get req ''get'') then Inr JUndefined
               else (case js_get req ''get'' of
                       JFun f \<Rightarrow> call rt f [JStr ''user-agent'']
                     | _ \<Rightarrow> Inl (new_TypeError ''req.get is not a function''))) of
           Inl e \<Rightarrow> Inl e
         | Inr userAgent \<Rightarrow>
             Inr (object_literal
                    [(''method'', js_get req ''method''), (''path'', js_get req ''path''),
                     (''ip'', js_get req ''ip''), (''userAgent'', userAgent)]))
      else Inr JNull)"

definition logContext :: "runtime \<Rightarrow> jsval \<Rightarrow> jsval \<Rightarrow> jsval \<Rightarrow> jsval completion" where
  "logContext rt originalError handlerError req =
     (case stack_first_line rt handlerError of
        Inl e \<Rightarrow> Inl e
      | Inr stack \<Rightarrow>
          (case request_context rt req of
             Inl e \<Rightarrow> Inl e
           | Inr request \<Rightarrow>
               Inr (object_literal
                      [(''originalError'',
                          object_literal
                            [(''name'', js_or (opt_member originalError ''name'') (JStr ''UnknownError'')),
                             (''message'',
                                js_or (opt_member originalError ''message'')
                                  (JStr ''Unknown error occurred'')),
                             (''statusCode'', opt_member originalError ''statusCode''),
                             (''errorCode'', opt_member originalError ''errorCode''),
                             (''isOperational'', opt_member originalError ''isOperational'')]),
                       (''handlerError'',
                          object_literal
                            [(''name'', js_or (opt_member handlerError ''name'') (JStr ''HandlerError'')),
                             (''message'',
                                js_or (opt_member handlerError ''message'')
                                  (JStr ''Handler execution failed'')),
                             (''stack'', stack)]),
                       (''request'', request),
                       (''timestamp'', JStr (now_iso rt))])))"

text \<open>
  \<^verbatim>\<open>
  function createFallbackResponse(originalError, handlerError, req = null) {
    const logContext = { ... };
    if (originalError?.isOperational === false) console.error(...) else console.warn(...)
    const fallbackStatusCode =
      originalError?.statusCode || HTTP_STATUS.INTERNAL_SERVER_ERROR;
    let fallbackMessage;
    if (fallbackStatusCode === HTTP_STATUS.NOT_FOUND) {
      fallbackMessage = 'Requested resource not found';
    } else if (fallbackStatusCode === HTTP_STATUS.BAD_REQUEST) {
      fallbackMessage = 'Invalid request data';
    } else if (fallbackStatusCode === HTTP_STATUS.FORBIDDEN) {
      fallbackMessage = 'Access denied';
    } else if (fallbackStatusCode === HTTP_STATUS.CONFLICT) {
      fallbackMessage = 'Resource conflict occurred';
    } else {
      fallbackMessage = 'Service temporarily unavailable';
    }
    const safeMeta = {
      errorCode: 'HANDLER_EXECUTION_FAILED',
      originalErrorCode: originalError?.errorCode,
      correlationId: originalError?.correlationId || generateSafeCorrelationId(),
      timestamp: new Date().toISOString(),
      retryable: isRetryableError(originalError),
      ...(originalError?.metadata?.domain && { domain: originalError.metadata.domain }),
    };
    return HttpResponse.error(fallbackMessage, fallbackStatusCode, null, safeMeta);
  }
  \<close>
\<close>

definition fallbackStatusCode :: "jsval \<Rightarrow> jsval" where
  "fallbackStatusCode originalError =
     js_or (opt_member originalError ''statusCode'') INTERNAL_SERVER_ERROR"

definition fallbackMessage :: "jsval \<Rightarrow> string" where
  "fallbackMessage statusCode =
     (if statusCode = NOT_FOUND then ''Requested resource not found''
      else if statusCode = BAD_REQUEST then ''Invalid request data''
      else if statusCode = FORBIDDEN then ''Access denied''
      else if statusCode = CONFLICT then ''Resource conflict occurred''
      else ''Service temporarily unavailable'')"

definition safeMeta :: "runtime \<Rightarrow> jsval \<Rightarrow> jsval" where
  "safeMeta rt originalError =
     object_literal
       ([(''errorCode'', JStr ''HANDLER_EXECUTION_FAILED''),
         (''originalErrorCode'', opt_member originalError ''errorCode''),
         (''correlationId'',
            js_or (opt_member originalError ''correlationId'') (generateSafeCorrelationId rt)),
         (''timestamp'', JStr (now_iso rt)),
         (''retryable'', JBool (isRetryableError originalError))] @
        (if truthy (opt_member (opt_member originalError ''metadata'') ''domain'')
         then [(''domain'', js_get (js_get originalError ''metadata'') ''domain'')]
         else []))"

definition createFallbackResponse ::
  "runtime \<Rightarrow> jsval \<Rightarrow> jsval \<Rightarrow> jsval \<Rightarrow> jsval completion" where
  "createFallbackResponse rt originalError handlerError req =
     (case logContext rt originalError handlerError req of
        Inl e \<Rightarrow> Inl e
      | Inr ctx \<Rightarrow>
          HttpResponse_error rt
            (JStr (fallbackMessage (fallbackStatusCode originalError)))
            (fallbackStatusCode originalError)
            JNull
            (safeMeta rt originalError))"

section \<open>The safe-execution wrapper and the dispatch entry point\<close>

text \<open>
  \<open>p.catch(f)\<close> on a promise: a rejection is passed to \<open>f\<close>, and what \<open>f\<close> returns
  (or throws) settles the new promise; a fulfilled or pending promise is passed on.
\<close>

definition is_promise :: "jsval \<Rightarrow> bool" where
  "is_promise v = (case v of JPending \<Rightarrow> True | JFulfilled x \<Rightarrow> True | JRejected x \<Rightarrow> True | _ \<Rightarrow> False)"

definition promise_catch :: "jsval \<Rightarrow> (jsval \<Rightarrow> jsval completion) \<Rightarrow> jsval" where
  "promise_catch p f =
     (case p of
        JRejected reason \<Rightarrow>
          (case f reason of
             Inl e \<Rightarrow> JRejected e
           | Inr v \<Rightarrow> if is_promise v then v else JFulfilled v)
      | _ \<Rightarrow> p)"

text \<open>The arrow function the wrapper passes to \<open>catch\<close>.\<close>

definition catch_callback :: func where "catch_callback = Func 12 [] False"

text \<open>
  \<^verbatim>\<open>
  function createSafeHandler(handler, options = {}) {
    const { handlerName = 'anonymous' } = options;
    return function safeHandlerWrapper(err, req, res) {
      try {
        const result = handler(err, req, res);
        if (result && typeof result.then === 'function') {
          return result.catch(handlerError => {
            console.error(...);
            return createFallbackResponse(err, handlerError, req);
          });
        }
        return result;
      } catch (handlerError) {
        console.error(...);
        return createFallbackResponse(err, handlerError, req);
      }
    };
  }
  \<close>
  \<open>createSafeHandler rt handler\<close> is the wrapper the source returns. An object that has a
  \<open>then\<close> function but is no promise has its own \<open>catch\<close> called, inside the
  \<^verbatim>\<open>try\<close>.
\<close>

definition createSafeHandler ::
  "runtime \<Rightarrow> func \<Rightarrow> jsval \<Rightarrow> jsval \<Rightarrow> jsval \<Rightarrow> jsval completion" where
  "createSafeHandler rt handler err req res =
     (case call rt handler [err, req, res] of
        Inl handlerError \<Rightarrow> createFallbackResponse rt err handlerError req
      | Inr result \<Rightarrow>
          if truthy result \<and> is_function (js_get result ''then'') then
            (if is_promise result then
               Inr (promise_catch result
                      (\<lambda>handlerError. createFallbackResponse rt err handlerError req))
             else
               (case js_get result ''catch'' of
                  JFun c \<Rightarrow>
                    (case call rt c [JFun catch_callback] of
                       Inl handlerError \<Rightarrow> createFallbackResponse rt err handlerError req
                     | Inr v \<Rightarrow> Inr v)
                | _ \<Rightarrow>
                    createFallbackResponse rt err
                      (new_TypeError ''result.catch is not a function'') req))
          else Inr result)"

text \<open>
  \<^verbatim>\<open>
  export function handleWithRegistry(err, req, res, options = {}) {
    const { useSafeWrapper = true } = options;
    const handler = findErrorHandler(err);
    if (!handler) return null;
    if (useSafeWrapper) {
      const safeHandler = createSafeHandler(handler, {
        handlerName: `${err.constructor.name}Handler`,
      });
      return safeHandler(err, req, res);
    }
    return handler(err, req, res);
  }
  \<close>
  The handler name is computed before the wrapper runs, outside its \<^verbatim>\<open>try\<close>.
\<close>

definition handlerName :: "runtime \<Rightarrow> jsval \<Rightarrow> string completion" where
  "handlerName rt err =
     (case member err ''constructor'' of
        Inl e \<Rightarrow> Inl e
      | Inr c \<Rightarrow>
          (case member c ''name'' of
             Inl e \<Rightarrow> Inl e
           | Inr n \<Rightarrow>
               (case js_String rt n of
                  Inl e \<Rightarrow> Inl e
                | Inr shown \<Rightarrow> Inr (shown @ ''Handler''))))"

definition handleWithRegistry ::
  "runtime \<Rightarrow> registry \<Rightarrow> jsval \<Rightarrow> jsval \<Rightarrow> jsval \<Rightarrow> bool \<Rightarrow> jsval completion" where
  "handleWithRegistry rt reg err req res useSafeWrapper =
     (case findErrorHandler reg err of
        Inl e \<Rightarrow> Inl e
      | Inr None \<Rightarrow> Inr JNull
      | Inr (Some handler) \<Rightarrow>
          if useSafeWrapper then
            (case handlerName rt err of
               Inl e \<Rightarrow> Inl e
             | Inr name \<Rightarrow> createSafeHandler rt handler err req res)
          else call rt handler [err, req, res])"

section \<open>Sending a response and the terminal middleware\<close>

text \<open>
  What the middleware does to the transport is a trace of calls: \<open>next(err)\<close> and, on
  the response object, \<open>status(code)\<close>, \<open>type(t)\<close> and \<open>send(body)\<close> (\<open>json\<close> is
  only tested for, never called). These three are the transport's own methods: each is
  recorded and returns the response object, as Express and the test mocks do. A run is
  the trace together with the value thrown, if any. Calls that a registered handler or
  another foreign function makes on the response are not traced.
\<close>

datatype effect = Next jsval | Status jsval | ContentType jsval | Send jsval

type_synonym run = "effect list \<times> jsval option"

text \<open>
  \<^verbatim>\<open>
  send(res) {
    if (!res || typeof res.status !== 'function' || typeof res.json !== 'function') {
      throw new Error('Invalid Express response object');
    }
    const finalStatusCode = HTTP_OPTIONS.SET_DEFAULT_HTTP_STATUS_CODE
      ? HTTP_OPTIONS.DEFAULT_HTTP_STATUS_CODE
      : this.statusCode;
    const body = { success: this.success, message: this.message };
    if (HTTP_OPTIONS.USE_STATUS_CODE_IN_RESPONSE) body.statusCode = this.statusCode;
    if (this.success) {
      if (this.data !== undefined && this.data !== null) body.data = this.data;
    } else if (this.data !== undefined && this.data !== null) {
      body.error = this.data;
    }
    if (this.meta && Object.keys(this.meta).length > 0) body.meta = this.meta;
    return res.status(finalStatusCode).type('application/json').send(body);
  }
  \<close>
\<close>

definition response_body :: "http_options \<Rightarrow> jsval \<Rightarrow> jsval" where
  "response_body opts this =
     object_literal
       ([(''success'', js_get this ''success''), (''message'', js_get this ''message'')] @
        (if USE_STATUS_CODE_IN_RESPONSE opts then [(''statusCode'', js_get this ''statusCode'')]
         else []) @
        (if is_nullish (js_get this ''data'') then []
         else if truthy (js_get this ''success'') then [(''data'', js_get this ''data'')]
         else [(''error'', js_get this ''data'')]) @
        (if truthy (js_get this ''meta'') \<and> own_entries (js_get this ''meta'') \<noteq> []
         then [(''meta'', js_get this ''meta'')] else []))"

definition send :: "http_options \<Rightarrow> jsval \<Rightarrow> jsval \<Rightarrow> run" where
  "send opts this res =
     (if \<not> truthy res \<or> \<not> is_function (js_get res ''status'') \<or>
         \<not> is_function (js_get res ''json'')
      then ([], Some (new_Error ''Invalid Express response object''))
      else
        (let finalStatusCode =
               (if SET_DEFAULT_HTTP_STATUS_CODE opts then DEFAULT_HTTP_STATUS_CODE opts
                else js_get this ''statusCode'')
         in if \<not> is_function (js_get res ''type'')
            then ([Status finalStatusCode],
                  Some (new_TypeError ''res.status(...).type is not a function''))
            else if \<not> is_function (js_get res ''send'')
            then ([Status finalStatusCode, ContentType (JStr ''application/json'')],
                  Some (new_TypeError ''res.status(...).type(...).send is not a function''))
            else ([Status finalStatusCode, ContentType (JStr ''application/json''),
                   Send (response_body opts this)], None)))"

text \<open>
  \<open>v.send(res)\<close> on the value the middleware holds: the method of \<open>HttpResponse\<close>
  unless the value has a property \<open>send\<close> of its own; a \<^verbatim>\<open>TypeError\<close> when there is
  no such function.
\<close>

definition call_send :: "runtime \<Rightarrow> http_options \<Rightarrow> jsval \<Rightarrow> jsval \<Rightarrow> run" where
  "call_send rt opts v res =
     (case (case v of JObj chain fs \<Rightarrow> map_of fs ''send'' | _ \<Rightarrow> None) of
        Some own \<Rightarrow>
          (case own of
             JFun f \<Rightarrow> (case call rt f [res] of Inl e \<Rightarrow> ([], Some e) | Inr r \<Rightarrow> ([], None))
           | _ \<Rightarrow> ([], Some (new_TypeError ''send is not a function'')))
      | None \<Rightarrow>
          if instanceof v HttpResponse = Inr True then send opts v res
          else ([], Some (new_TypeError ''send is not a function'')))"

text \<open>
  \<^verbatim>\<open>
  export default function globalErrorHandler(err, req, res, next) {
    if (res.headersSent) return next(err);
    if (err instanceof HttpResponse) return err.send(res);
    const customResponse = handleWithRegistry(err, req, res);
    if (customResponse) return customResponse.send(res);
    if (err instanceof BaseException) {
      const meta = {
        ...(err.metadata ?? err.meta ?? {}),
        ...(err.errorCode !== undefined ? { errorCode: err.errorCode } : {}),
        ...(err.isOperational !== undefined ? { isOperational: err.isOperational } : {}),
        ...(err.correlationId !== undefined ? { correlationId: err.correlationId } : {}),
      };
      return HttpResponse.error(err.message, err.statusCode ?? HTTP_STATUS.BAD_REQUEST,
                                err.data, meta).send(res);
    }
    console.error({ err });
    const message =
      process.env.NODE_ENV === 'production'
        ? 'Internal Server Error'
        : err.message || 'Internal Server Error';
    return HttpResponse.error(message, HTTP_STATUS.INTERNAL_SERVER_ERROR).send(res);
  }
  \<close>
\<close>

definition default_exception_meta :: "jsval \<Rightarrow> jsval" where
  "default_exception_meta err =
     object_literal
       (own_entries
          (nullish_coalesce (js_get err ''metadata'')
             (nullish_coalesce (js_get err ''meta'') (object_literal []))) @
        (if js_get err ''errorCode'' \<noteq> JUndefined
         then [(''errorCode'', js_get err ''errorCode'')] else []) @
        (if js_get err ''isOperational'' \<noteq> JUndefined
         then [(''isOperational'', js_get err ''isOperational'')] else []) @
        (if js_get err ''correlationId'' \<noteq> JUndefined
         then [(''correlationId'', js_get err ''correlationId'')] else []))"

definition unknown_error_message :: "runtime \<Rightarrow> jsval \<Rightarrow> jsval completion" where
  "unknown_error_message rt err =
     (if node_env rt = Some ''production'' then Inr (JStr ''Internal Server Error'')
      else (case member err ''message'' of
              Inl e \<Rightarrow> Inl e
            | Inr m \<Rightarrow> Inr (js_or m (JStr ''Internal Server Error''))))"

definition globalErrorHandler ::
  "runtime \<Rightarrow> http_options \<Rightarrow> registry \<Rightarrow> jsval \<Rightarrow> jsval \<Rightarrow> jsval \<Rightarrow> run" where
  "globalErrorHandler rt opts reg err req res =
     (case member res ''headersSent'' of
        Inl e \<Rightarrow> ([], Some e)
      | Inr headersSent \<Rightarrow>
          if truthy headersSent then ([Next err], None)
          else if instanceof err HttpResponse = Inr True then call_send rt opts err res
          else
            (case handleWithRegistry rt reg err req res True of
               Inl e \<Rightarrow> ([], Some e)
             | Inr customResponse \<Rightarrow>
                 if truthy customResponse then call_send rt opts customResponse res
                 else if instanceof err BaseException = Inr True then
                   (case HttpResponse_error rt (js_get err ''message'')
                           (nullish_coalesce (js_get err ''statusCode'') BAD_REQUEST)
                           (js_get err ''data'') (default_exception_meta err) of
                      Inl e \<Rightarrow> ([], Some e)
                    | Inr response \<Rightarrow> send opts response res)
                 else
                   (case unknown_error_message rt err of
                      Inl e \<Rightarrow> ([], Some e)
                    | Inr message \<Rightarrow>
                        (case HttpResponse_error rt message INTERNAL_SERVER_ERROR
                                JUndefined JUndefined of
                           Inl e \<Rightarrow> ([], Some e)
                         | Inr response \<Rightarrow> send opts response res))))"

section \<open>The registry as a shared object\<close>

text \<open>
  \<open>getRegisteredHandlers\<close> hands a \<^verbatim>\<open>Map\<close> object to its caller, who may mutate it.
  Whether that reaches the registry depends on aliasing, so \<^verbatim>\<open>Map\<close> objects live in a
  store, addressed by their position. The module allocates the registry first.
  \<^verbatim>\<open>
  const errorHandlerRegistry = new Map();
  export function getRegisteredHandlers() {
    return new Map(errorHandlerRegistry);
  }
  \<close>
\<close>

type_synonym store = "registry list"

definition errorHandlerRegistry :: nat where "errorHandlerRegistry = 0"

definition module_store :: store where "module_store = [[]]"

definition live_registry :: "store \<Rightarrow> registry" where
  "live_registry st = st ! errorHandlerRegistry"

definition getRegisteredHandlers :: "store \<Rightarrow> nat \<times> store" where
  "getRegisteredHandlers st = (length st, st @ [new_Map (live_registry st)])"

text \<open>What a holder of the \<^verbatim>\<open>Map\<close> at address \<open>a\<close> can do to it.\<close>

datatype map_op = MapSet func func | MapDelete func | MapClear

definition apply_map_op :: "map_op \<Rightarrow> registry \<Rightarrow> registry" where
  "apply_map_op op m =
     (case op of
        MapSet k v \<Rightarrow> map_set k v m
      | MapDelete k \<Rightarrow> map_delete k m
      | MapClear \<Rightarrow> map_clear m)"

definition mutate :: "nat \<Rightarrow> store \<Rightarrow> map_op \<Rightarrow> store" where
  "mutate a st op = st[a := apply_map_op op (st ! a)]"

section \<open>Test fixtures\<close>

text \<open>
  The classes and handlers of \<^verbatim>\<open>error-handler-registry.helper.spec.js\<close>:
  \<open>SpecificTestException\<close> extends \<open>TestException\<close>, which extends \<open>BaseException\<close>.
\<close>

definition TestException :: func where "TestException = Func 100 ''TestException'' True"
definition SpecificTestException :: func where
  "SpecificTestException = Func 101 ''SpecificTestException'' True"
definition testHandler :: func where "testHandler = Func 102 ''testHandler'' True"
definition specificHandler :: func where "specificHandler = Func 103 ''specificHandler'' True"
definition mockHandler :: func where "mockHandler = Func 104 ''mockConstructor'' True"
definition riskyTestHandler :: func where "riskyTestHandler = Func 105 ''riskyTestHandler'' True"
definition asyncBuggyHandler :: func where "asyncBuggyHandler = Func 106 ''asyncBuggyHandler'' False"
definition oddStackHandler :: func where "oddStackHandler = Func 107 ''oddStackHandler'' True"

lemmas fixture_defs =
  TestException_def SpecificTestException_def testHandler_def specificHandler_def
  mockHandler_def riskyTestHandler_def asyncBuggyHandler_def oddStackHandler_def

definition TestException_chain :: "func list" where
  "TestException_chain = [TestException, BaseException, Error_ctor, Object_ctor]"

definition SpecificTestException_chain :: "func list" where
  "SpecificTestException_chain =
     [SpecificTestException, TestException, BaseException, Error_ctor, Object_ctor]"

text \<open>
  An engine for the tests: \<open>riskyTestHandler\<close> throws a \<^verbatim>\<open>TypeError\<close>,
  \<open>asyncBuggyHandler\<close> returns a promise that rejects with an \<open>Error\<close>,
  \<open>oddStackHandler\<close> runs \<^verbatim>\<open>throw { stack: 42 }\<close>, and every other function
  returns \<^verbatim>\<open>undefined\<close>.
\<close>

definition test_call :: "func \<Rightarrow> jsval list \<Rightarrow> jsval completion" where
  "test_call f args =
     (if f = riskyTestHandler
      then Inl (new_TypeError ''Cannot read properties of null (reading nonExistentProperty)'')
      else if f = asyncBuggyHandler
      then Inr (JRejected (new_Error ''Async handler crashed''))
      else if f = oddStackHandler
      then Inl (object_literal [(''stack'', JNum 42)])
      else Inr JUndefined)"

definition test_runtime :: runtime where
  "test_runtime =
     \<lparr> now_iso = ''2025-01-01T00:00:00.000Z'', date_now = ''1735689600000'',
       random_token = ''k3j9x2ab'', node_env = Some ''test'',
       string_to_Number = (\<lambda>s. None),
       object_to_Number = (\<lambda>v. Inr None),
       object_to_String = (\<lambda>v. Inr ''[object Object]''),
       STATUS_CODES = object_literal [(''200'', JStr ''OK'')],
       call = test_call \<rparr>"

definition default_options :: http_options where
  "default_options =
     \<lparr> USE_STATUS_CODE_IN_RESPONSE = True, SET_DEFAULT_HTTP_STATUS_CODE = False,
       DEFAULT_HTTP_STATUS_CODE = OK \<rparr>"

text \<open>\<open>createMockRes()\<close> and a request of the tests.\<close>

definition mock_res :: jsval where
  "mock_res =
     object_literal
       [(''headersSent'', JBool False),
        (''status'', JFun (Func 110 ''mockConstructor'' True)),
        (''type'', JFun (Func 111 ''mockConstructor'' True)),
        (''json'', JFun (Func 112 ''mockConstructor'' True)),
        (''send'', JFun (Func 113 ''mockConstructor'' True))]"

definition mock_req :: jsval where
  "mock_req = object_literal [(''path'', JStr ''/test'')]"

definition production_runtime :: runtime where
  "production_runtime = test_runtime \<lparr> node_env := Some ''production'' \<rparr>"

text \<open>
  The error and the request of \<^verbatim>\<open>test0.js\<close>:
  \<^verbatim>\<open>
  const testError = new BaseException('User not found', {
    statusCode: HTTP_STATUS.NOT_FOUND,
    errorCode: 'USER_NOT_FOUND',
    metadata: { domain: 'user' },
  });
  testError.metadata = null;
  const req = { method: 'GET', path: '/api/users/123', ip: '192.168.1.1' };
  \<close>
\<close>

definition testError :: jsval where
  "testError =
     (case new_BaseException test_runtime BaseException [Error_ctor, Object_ctor]
             (JStr ''User not found'')
             (object_literal
                [(''statusCode'', NOT_FOUND), (''errorCode'', JStr ''USER_NOT_FOUND''),
                 (''metadata'', object_literal [(''domain'', JStr ''user'')])]) of
        Inl e \<Rightarrow> e
      | Inr constructed \<Rightarrow> js_set constructed ''metadata'' JNull)"

definition test0_req :: jsval where
  "test0_req =
     object_literal
       [(''method'', JStr ''GET''), (''path'', JStr ''/api/users/123''),
        (''ip'', JStr ''192.168.1.1'')]"

section \<open>Shapes of the values the properties speak about\<close>

text \<open>
  The value a handler threw has a \<open>stack\<close> that is absent, \<^verbatim>\<open>null\<close> or a string
  (every \<open>Error\<close> the engine creates has a string), or the thrown value is itself
  \<^verbatim>\<open>null\<close> or \<^verbatim>\<open>undefined\<close>.
\<close>

definition stack_is_text :: "jsval \<Rightarrow> bool" where
  "stack_is_text handlerError =
     (case opt_member handlerError ''stack'' of
        JUndefined \<Rightarrow> True
      | JNull \<Rightarrow> True
      | JStr s \<Rightarrow> True
      | _ \<Rightarrow> False)"

text \<open>A primitive value; converting one to a number or to a string cannot throw.\<close>

definition is_primitive :: "jsval \<Rightarrow> bool" where
  "is_primitive v =
     (case v of
        JUndefined \<Rightarrow> True
      | JNull \<Rightarrow> True
      | JBool b \<Rightarrow> True
      | JNum n \<Rightarrow> True
      | JStr s \<Rightarrow> True
      | _ \<Rightarrow> False)"

text \<open>
  The request is absent, or has no \<open>get\<close>, or its \<open>get\<close> is a function that returns
  when asked for the user agent (as the one of Express does).
\<close>

definition request_is_plain :: "runtime \<Rightarrow> jsval \<Rightarrow> bool" where
  "request_is_plain rt req =
     (\<not> truthy req \<or> is_nullish (js_get req ''get'') \<or>
      (case js_get req ''get'' of
         JFun f \<Rightarrow> (case call rt f [JStr ''user-agent''] of Inl e \<Rightarrow> False | Inr v \<Rightarrow> True)
       | _ \<Rightarrow> False))"

text \<open>
  A response object nothing has been sent on, with the four methods the middleware and
  \<open>send\<close> use.
\<close>

definition transport_ready :: "jsval \<Rightarrow> bool" where
  "transport_ready res =
     (truthy res \<and> \<not> truthy (js_get res ''headersSent'') \<and>
      is_function (js_get res ''status'') \<and> is_function (js_get res ''json'') \<and>
      is_function (js_get res ''type'') \<and> is_function (js_get res ''send''))"

section \<open>Properties of the registry\<close>

subsection \<open>Map operations and the two scans\<close>

lemma map_set_map_of: "map_of (map_set k v m) = (map_of m)(k \<mapsto> v)"
  by (induction m) (auto simp: fun_eq_iff)

lemma map_set_keys: "fst ` set (map_set k v m) = insert k (fst ` set m)"
  by (simp add: dom_map_of_conv_image_fst [symmetric] map_set_map_of)

lemma map_set_distinct: "distinct (map fst m) \<Longrightarrow> distinct (map fst (map_set k v m))"
  by (induction m) (auto simp: map_set_keys)

lemma map_set_one_entry:
  "distinct (map fst m) \<Longrightarrow> length (filter (\<lambda>e. fst e = k) (map_set k v m)) = 1"
proof (induction m)
  case Nil
  then show ?case by simp
next
  case (Cons a m)
  obtain k' v' where a: "a = (k', v')" by (cases a)
  show ?case
  proof (cases "k' = k")
    case True
    with Cons.prems a have "k \<notin> fst ` set m" by auto
    then have "filter (\<lambda>e. fst e = k) m = []" by (auto simp: filter_empty_conv)
    with True a show ?thesis by simp
  next
    case False
    with Cons a show ?thesis by simp
  qed
qed

lemma new_Map_aux:
  "distinct (map fst (acc @ es)) \<Longrightarrow>
   foldl (\<lambda>m e. map_set (fst e) (snd e) m) acc es = acc @ es"
proof (induction es arbitrary: acc)
  case Nil
  then show ?case by simp
next
  case (Cons e es)
  have app: "map_set (fst e) (snd e) acc = acc @ [e]" if "fst e \<notin> fst ` set acc" for acc :: "('a \<times> 'b) list"
    using that by (induction acc) auto
  from Cons.prems have "fst e \<notin> fst ` set acc" by auto
  then have "map_set (fst e) (snd e) acc = acc @ [e]" by (rule app)
  moreover from Cons.prems have "distinct (map fst ((acc @ [e]) @ es))" by simp
  ultimately show ?case using Cons.IH [of "acc @ [e]"] by simp
qed

lemma new_Map_copy: "distinct (map fst m) \<Longrightarrow> new_Map m = m"
  using new_Map_aux [of "[]" m] by (simp add: new_Map_def)

lemma exact_scan_ctor:
  "\<not> is_nullish err \<Longrightarrow> js_get err ''constructor'' = JFun c \<Longrightarrow>
   exact_scan err reg = Inr (map_of reg c)"
  by (induction reg) (auto simp: member_def)

lemma exact_scan_none:
  "\<not> is_nullish err \<Longrightarrow> \<forall>k\<in>fst ` set reg. js_get err ''constructor'' \<noteq> JFun k \<Longrightarrow>
   exact_scan err reg = Inr None"
  by (induction reg) (auto simp: member_def)

lemma exact_scan_nullish:
  "is_nullish err \<Longrightarrow> reg \<noteq> [] \<Longrightarrow> \<exists>e. exact_scan err reg = Inl e \<and> is_TypeError e"
  by (cases reg) (auto simp: member_def is_TypeError_def instanceof_def new_TypeError_def proto_chain_def ctor_defs)

lemma inheritance_scan_object:
  "proto_chain err = Some chain \<Longrightarrow> \<forall>k\<in>fst ` set reg. has_prototype k \<Longrightarrow>
   inheritance_scan err reg = Inr (map_option snd (find (\<lambda>e. fst e \<in> set chain) reg))"
  by (induction reg) (auto simp: instanceof_def)

lemma inheritance_scan_none:
  "\<forall>k\<in>fst ` set reg. has_prototype k \<Longrightarrow> \<forall>k\<in>fst ` set reg. instanceof err k \<noteq> Inr True \<Longrightarrow>
   inheritance_scan err reg = Inr None"
  by (induction reg) (auto simp: instanceof_def split: option.splits)

lemma find_sole:
  "map_of reg P = Some hp \<Longrightarrow> \<forall>k\<in>fst ` set reg. k \<in> S \<longrightarrow> k = P \<Longrightarrow> P \<in> S \<Longrightarrow>
   find (\<lambda>e. fst e \<in> S) reg = Some (P, hp)"
  by (induction reg) (auto split: if_splits)

lemma new_Error_plain: "\<not> is_TypeError (new_Error msg)"
  by (simp add: is_TypeError_def instanceof_def proto_chain_def new_Error_def ctor_defs)

lemma new_TypeError_is: "is_TypeError (new_TypeError msg)"
  by (simp add: is_TypeError_def instanceof_def proto_chain_def new_TypeError_def ctor_defs)

lemma findErrorHandler_nullish_throws:
  "is_nullish err \<Longrightarrow> reg \<noteq> [] \<Longrightarrow> \<exists>e. findErrorHandler reg err = Inl e \<and> is_TypeError e"
  using exact_scan_nullish [of err reg] by (auto simp: findErrorHandler_def)

lemma mutate_length: "length (mutate a st op) = length st"
  by (simp add: mutate_def)

lemma mutate_other: "b \<noteq> a \<Longrightarrow> mutate a st op ! b = st ! b"
  by (simp add: mutate_def)

lemma mutations_other: "b \<noteq> a \<Longrightarrow> foldl (mutate a) st ops ! b = st ! b"
  by (induction ops arbitrary: st) (simp_all add: mutate_other)

lemma mutations_length: "length (foldl (mutate a) st ops) = length st"
  by (induction ops arbitrary: st) (simp_all add: mutate_length)

subsection \<open>Registration\<close>

text \<open>
  Claim C8, as amended. When \<^verbatim>\<open>typeof\<close> of the first argument is not
  \<^verbatim>\<open>'function'\<close>, \<open>registerErrorHandler\<close> throws an \<open>Error\<close> with the message
  "ExceptionClass must be a constructor function", whatever the second argument is. When
  the first argument is a function and \<^verbatim>\<open>typeof\<close> of the second is not
  \<^verbatim>\<open>'function'\<close>, it throws an \<open>Error\<close> with the message "Handler must be a
  function". Either value is a plain \<open>Error\<close> and no \<open>TypeError\<close>, and in both cases
  nothing is stored. When both arguments are functions it returns normally, the variant
  is then mapped to the new handler, every other variant keeps its handler, and a
  registry with one entry per variant still has one entry per variant, exactly one of
  them for the registered variant.
\<close>

theorem registerErrorHandler_contract:
  "(\<not> is_function ExceptionClass \<longrightarrow>
      registerErrorHandler reg ExceptionClass handler =
        Inl (new_Error ''ExceptionClass must be a constructor function'')) \<and>
   (is_function ExceptionClass \<and> \<not> is_function handler \<longrightarrow>
      registerErrorHandler reg ExceptionClass handler =
        Inl (new_Error ''Handler must be a function'')) \<and>
   \<not> is_TypeError (new_Error ''ExceptionClass must be a constructor function'') \<and>
   \<not> is_TypeError (new_Error ''Handler must be a function'') \<and>
   instanceof (new_Error ''ExceptionClass must be a constructor function'') Error_ctor = Inr True \<and>
   instanceof (new_Error ''Handler must be a function'') Error_ctor = Inr True \<and>
   (\<forall>k h. ExceptionClass = JFun k \<and> handler = JFun h \<longrightarrow>
      (\<exists>reg'. registerErrorHandler reg ExceptionClass handler = Inr reg' \<and>
         map_of reg' k = Some h \<and>
         (\<forall>k'. k' \<noteq> k \<longrightarrow> map_of reg' k' = map_of reg k') \<and>
         (distinct (map fst reg) \<longrightarrow>
            distinct (map fst reg') \<and> length (filter (\<lambda>e. fst e = k) reg') = 1)))"
proof (intro conjI impI allI)
  assume "\<not> is_function ExceptionClass"
  then show "registerErrorHandler reg ExceptionClass handler =
      Inl (new_Error ''ExceptionClass must be a constructor function'')"
    by (cases ExceptionClass) (simp_all add: registerErrorHandler_def is_function_def)
next
  assume a: "is_function ExceptionClass \<and> \<not> is_function handler"
  then obtain k where k: "ExceptionClass = JFun k"
    by (cases ExceptionClass) (simp_all add: is_function_def)
  from a have "\<not> is_function handler" by blast
  then show "registerErrorHandler reg ExceptionClass handler =
      Inl (new_Error ''Handler must be a function'')"
    unfolding k by (cases handler) (simp_all add: registerErrorHandler_def is_function_def)
next
  show "\<not> is_TypeError (new_Error ''ExceptionClass must be a constructor function'')"
    by (rule new_Error_plain)
  show "\<not> is_TypeError (new_Error ''Handler must be a function'')"
    by (rule new_Error_plain)
  show "instanceof (new_Error ''ExceptionClass must be a constructor function'') Error_ctor =
      Inr True"
    by (simp add: instanceof_def proto_chain_def new_Error_def ctor_defs)
  show "instanceof (new_Error ''Handler must be a function'') Error_ctor = Inr True"
    by (simp add: instanceof_def proto_chain_def new_Error_def ctor_defs)
next
  fix k h
  assume "ExceptionClass = JFun k \<and> handler = JFun h"
  then have "registerErrorHandler reg ExceptionClass handler = Inr (map_set k h reg)"
    by (simp add: registerErrorHandler_def)
  then show "\<exists>reg'. registerErrorHandler reg ExceptionClass handler = Inr reg' \<and>
         map_of reg' k = Some h \<and>
         (\<forall>k'. k' \<noteq> k \<longrightarrow> map_of reg' k' = map_of reg k') \<and>
         (distinct (map fst reg) \<longrightarrow>
            distinct (map fst reg') \<and> length (filter (\<lambda>e. fst e = k) reg') = 1)"
    by (simp add: map_set_map_of map_set_distinct map_set_one_entry)
qed

theorem registerErrorHandler_contract_witness:
  "\<not> is_function (JStr ''NotAClass'') \<and>
   registerErrorHandler [] (JStr ''NotAClass'') (JStr ''NotAFunction'') =
     Inl (new_Error ''ExceptionClass must be a constructor function'') \<and>
   is_function (JFun TestException) \<and> \<not> is_function (JStr ''NotAFunction'') \<and>
   registerErrorHandler [(TestException, testHandler)] (JFun TestException)
       (JStr ''NotAFunction'') =
     Inl (new_Error ''Handler must be a function'') \<and>
   distinct (map fst [(TestException, testHandler)]) \<and>
   registerErrorHandler [(TestException, testHandler)] (JFun TestException) (JFun mockHandler) =
     Inr [(TestException, mockHandler)]"
proof -
  have h1: "\<not> is_function (JStr ''NotAClass'')"
    by (simp add: is_function_def)
  have h2: "is_function (JFun TestException) \<and> \<not> is_function (JStr ''NotAFunction'')"
    by (simp add: is_function_def)
  have h3: "distinct (map fst [(TestException, testHandler)])"
    by simp
  from registerErrorHandler_contract [of "JStr ''NotAClass''" "[]" "JStr ''NotAFunction''"] h1
  have a: "registerErrorHandler [] (JStr ''NotAClass'') (JStr ''NotAFunction'') =
      Inl (new_Error ''ExceptionClass must be a constructor function'')"
    by blast
  from registerErrorHandler_contract
    [of "JFun TestException" "[(TestException, testHandler)]" "JStr ''NotAFunction''"] h2
  have b: "registerErrorHandler [(TestException, testHandler)] (JFun TestException)
       (JStr ''NotAFunction'') = Inl (new_Error ''Handler must be a function'')"
    by blast
  from registerErrorHandler_contract
    [of "JFun TestException" "[(TestException, testHandler)]" "JFun mockHandler"] h3
  obtain reg' where r: "registerErrorHandler [(TestException, testHandler)]
        (JFun TestException) (JFun mockHandler) = Inr reg'"
    and "map_of reg' TestException = Some mockHandler"
    by blast
  then have c: "registerErrorHandler [(TestException, testHandler)] (JFun TestException)
      (JFun mockHandler) = Inr [(TestException, mockHandler)]"
    by (simp add: registerErrorHandler_def)
  from h1 h2 h3 a b c show ?thesis by blast
qed

text \<open>
  The string \<^verbatim>\<open>'NotAClass'\<close> of the test file is rejected with an \<open>Error\<close> that is no
  \<open>TypeError\<close>.
\<close>

theorem registerErrorHandler_plain_Error_counterexample:
  "registerErrorHandler [] (JStr ''NotAClass'') (JFun testHandler) =
     Inl (new_Error ''ExceptionClass must be a constructor function'') \<and>
   \<not> is_TypeError (new_Error ''ExceptionClass must be a constructor function'')"
  by (simp add: registerErrorHandler_def new_Error_plain)

subsection \<open>Lookup\<close>

text \<open>
  Claim C2. For an instance of \<open>Child\<close> whose chain holds \<open>Parent\<close>, and an
  instance of \<open>Parent\<close>: when both classes are registered, in whatever registry and
  order, the child instance gets the child's handler and the parent instance the
  parent's. When the registered variants are classes and \<open>Parent\<close> is the only
  registered one on the child's chain, the child instance gets the parent's handler. And
  when the registered variants are classes, for any error value other than \<^verbatim>\<open>null\<close> and
  \<^verbatim>\<open>undefined\<close> that none of them matches, neither as its constructor nor by
  \<^verbatim>\<open>instanceof\<close>, the lookup returns \<^verbatim>\<open>null\<close> and does not throw.
\<close>

theorem findErrorHandler_two_phase:
  assumes child: "child = JObj (Child # ancestors) cfs" "map_of cfs ''constructor'' = None"
    and parent: "parent = JObj (Parent # elders) pfs" "map_of pfs ''constructor'' = None"
    and ext: "Parent \<in> set ancestors" "Child \<noteq> Parent"
  shows "(map_of reg Child = Some hc \<and> map_of reg Parent = Some hp \<longrightarrow>
            findErrorHandler reg child = Inr (Some hc) \<and>
            findErrorHandler reg parent = Inr (Some hp)) \<and>
         ((\<forall>k\<in>fst ` set reg. has_prototype k) \<and> map_of reg Parent = Some hp \<and>
            (\<forall>k\<in>fst ` set reg. k \<in> set (Child # ancestors) \<longrightarrow> k = Parent) \<longrightarrow>
            findErrorHandler reg child = Inr (Some hp)) \<and>
         ((\<forall>k\<in>fst ` set reg. has_prototype k) \<and> \<not> is_nullish err \<and>
            (\<forall>k\<in>fst ` set reg. js_get err ''constructor'' \<noteq> JFun k \<and> instanceof err k \<noteq> Inr True) \<longrightarrow>
            findErrorHandler reg err = Inr None)"
proof (intro conjI impI)
  assume both: "map_of reg Child = Some hc \<and> map_of reg Parent = Some hp"
  have "exact_scan child reg = Inr (map_of reg Child)"
    using child by (intro exact_scan_ctor) (simp_all add: is_nullish_def js_get_def)
  with both show "findErrorHandler reg child = Inr (Some hc)"
    by (simp add: findErrorHandler_def)
  have "exact_scan parent reg = Inr (map_of reg Parent)"
    using parent by (intro exact_scan_ctor) (simp_all add: is_nullish_def js_get_def)
  with both show "findErrorHandler reg parent = Inr (Some hp)"
    by (simp add: findErrorHandler_def)
next
  assume only: "(\<forall>k\<in>fst ` set reg. has_prototype k) \<and> map_of reg Parent = Some hp \<and>
    (\<forall>k\<in>fst ` set reg. k \<in> set (Child # ancestors) \<longrightarrow> k = Parent)"
  then have classes: "\<forall>k\<in>fst ` set reg. has_prototype k" by blast
  have "Child \<notin> fst ` set reg"
    using only ext by auto
  then have "map_of reg Child = None"
    by (simp add: map_of_eq_None_iff)
  moreover have "exact_scan child reg = Inr (map_of reg Child)"
    using child by (intro exact_scan_ctor) (simp_all add: is_nullish_def js_get_def)
  ultimately have ex: "exact_scan child reg = Inr None" by simp
  have "inheritance_scan child reg =
          Inr (map_option snd (find (\<lambda>e. fst e \<in> set (Child # ancestors)) reg))"
    using classes child by (intro inheritance_scan_object) (simp_all add: proto_chain_def)
  moreover have "find (\<lambda>e. fst e \<in> set (Child # ancestors)) reg = Some (Parent, hp)"
    using only ext by (intro find_sole) auto
  ultimately show "findErrorHandler reg child = Inr (Some hp)"
    using ex by (simp add: findErrorHandler_def)
next
  assume none: "(\<forall>k\<in>fst ` set reg. has_prototype k) \<and> \<not> is_nullish err \<and>
    (\<forall>k\<in>fst ` set reg. js_get err ''constructor'' \<noteq> JFun k \<and> instanceof err k \<noteq> Inr True)"
  then have "exact_scan err reg = Inr None"
    by (intro exact_scan_none) auto
  moreover have "inheritance_scan err reg = Inr None"
    using none by (intro inheritance_scan_none) auto
  ultimately show "findErrorHandler reg err = Inr None"
    by (simp add: findErrorHandler_def)
qed

theorem findErrorHandler_two_phase_witness:
  "findErrorHandler [(TestException, testHandler), (SpecificTestException, specificHandler)]
     (JObj SpecificTestException_chain []) = Inr (Some specificHandler) \<and>
   findErrorHandler [(TestException, testHandler), (SpecificTestException, specificHandler)]
     (JObj TestException_chain []) = Inr (Some testHandler) \<and>
   findErrorHandler [(TestException, testHandler)]
     (JObj SpecificTestException_chain []) = Inr (Some testHandler) \<and>
   findErrorHandler [(TestException, testHandler)] (new_Error ''unknown error'') = Inr None"
proof -
  let ?both = "[(TestException, testHandler), (SpecificTestException, specificHandler)]"
  let ?one = "[(TestException, testHandler)]"
  let ?elders = "[TestException, BaseException, Error_ctor, Object_ctor]"
  let ?rest = "[BaseException, Error_ctor, Object_ctor]"
  have child: "JObj SpecificTestException_chain [] = JObj (SpecificTestException # ?elders) []"
    by (simp add: SpecificTestException_chain_def)
  have parent: "JObj TestException_chain [] = JObj (TestException # ?rest) []"
    by (simp add: TestException_chain_def)
  have nc: "map_of ([] :: (string \<times> jsval) list) ''constructor'' = None"
    by simp
  have ext: "TestException \<in> set ?elders" "SpecificTestException \<noteq> TestException"
    by (simp_all add: fixture_defs)
  have unknown: "\<not> is_nullish (new_Error ''unknown error'') \<and>
      (\<forall>k\<in>fst ` set ?one. js_get (new_Error ''unknown error'') ''constructor'' \<noteq> JFun k \<and>
         instanceof (new_Error ''unknown error'') k \<noteq> Inr True)"
    by (simp add: is_nullish_def new_Error_def js_get_def instanceof_def proto_chain_def
        fixture_defs ctor_defs)
  have classes: "\<forall>k\<in>fst ` set ?one. has_prototype k"
    by (simp add: fixture_defs)
  note both = findErrorHandler_two_phase [OF child nc parent nc ext,
      of ?both specificHandler testHandler JNull]
  note one = findErrorHandler_two_phase [OF child nc parent nc ext,
      of ?one specificHandler testHandler "new_Error ''unknown error''"]
  from both have "findErrorHandler ?both (JObj SpecificTestException_chain []) =
        Inr (Some specificHandler) \<and>
      findErrorHandler ?both (JObj TestException_chain []) = Inr (Some testHandler)"
    by (simp add: fixture_defs)
  moreover from one have "findErrorHandler ?one (JObj SpecificTestException_chain []) =
      Inr (Some testHandler)"
    by (simp add: fixture_defs ctor_defs)
  moreover from one unknown classes
  have "findErrorHandler ?one (new_Error ''unknown error'') = Inr None"
    by blast
  ultimately show ?thesis by simp
qed

text \<open>
  Claim C10, as amended. With \<^verbatim>\<open>null\<close> or \<^verbatim>\<open>undefined\<close> as the error,
  \<open>findErrorHandler\<close> and \<open>handleWithRegistry\<close> throw a \<^verbatim>\<open>TypeError\<close> when at least
  one handler is registered; when the registry is empty no entry is scanned, nothing is
  read from the error, and both return \<^verbatim>\<open>null\<close>.
\<close>

theorem findErrorHandler_nullish:
  assumes "is_nullish err"
  shows "(reg \<noteq> [] \<longrightarrow>
            (\<exists>e. findErrorHandler reg err = Inl e \<and> is_TypeError e) \<and>
            (\<exists>e. handleWithRegistry rt reg err req res useSafeWrapper = Inl e \<and> is_TypeError e)) \<and>
         (reg = [] \<longrightarrow>
            findErrorHandler reg err = Inr None \<and>
            handleWithRegistry rt reg err req res useSafeWrapper = Inr JNull)"
proof (intro conjI impI)
  assume "reg \<noteq> []"
  with assms obtain e where e: "findErrorHandler reg err = Inl e" "is_TypeError e"
    using findErrorHandler_nullish_throws by blast
  then show "\<exists>e. findErrorHandler reg err = Inl e \<and> is_TypeError e" by blast
  from e show "\<exists>e. handleWithRegistry rt reg err req res useSafeWrapper = Inl e \<and> is_TypeError e"
    by (simp add: handleWithRegistry_def)
next
  assume "reg = []"
  then show "findErrorHandler reg err = Inr None" by (simp add: findErrorHandler_def)
  with \<open>reg = []\<close> show "handleWithRegistry rt reg err req res useSafeWrapper = Inr JNull"
    by (simp add: handleWithRegistry_def)
qed

theorem findErrorHandler_nullish_witness:
  "is_nullish JUndefined \<and>
   (\<exists>e. findErrorHandler [(TestException, testHandler)] JUndefined = Inl e \<and> is_TypeError e) \<and>
   findErrorHandler [] JUndefined = Inr None"
proof -
  have h: "is_nullish JUndefined" by (simp add: is_nullish_def)
  show ?thesis
    using h findErrorHandler_nullish [OF h, of "[(TestException, testHandler)]" test_runtime mock_req mock_res True]
      findErrorHandler_nullish [OF h, of "[]" test_runtime mock_req mock_res True]
    by simp
qed

text \<open>On the empty registry the lookup of \<^verbatim>\<open>null\<close> returns \<^verbatim>\<open>null\<close>.\<close>

theorem findErrorHandler_null_empty_registry_counterexample:
  "findErrorHandler [] JNull = Inr None \<and>
   handleWithRegistry test_runtime [] JNull mock_req mock_res True = Inr JNull"
  by (simp add: findErrorHandler_def handleWithRegistry_def)

subsection \<open>The snapshot\<close>

text \<open>
  Claim C9. Let the registry be allocated, let \<open>getRegisteredHandlers\<close> return the
  \<^verbatim>\<open>Map\<close> at address \<open>a\<close>, and let its holder then set, delete and clear entries of
  that \<^verbatim>\<open>Map\<close> in any number and order. The registry is what it was, \<open>findErrorHandler\<close>
  answers as before for every error, and (a \<^verbatim>\<open>Map\<close> having one entry per key) both the
  first snapshot and a snapshot taken afterwards hold the registry's entries.
\<close>

theorem getRegisteredHandlers_snapshot:
  assumes alloc: "errorHandlerRegistry < length st"
    and snap: "getRegisteredHandlers st = (a, st1)"
    and later: "st2 = foldl (mutate a) st1 ops"
  shows "live_registry st2 = live_registry st \<and>
         findErrorHandler (live_registry st2) err = findErrorHandler (live_registry st) err \<and>
         (distinct (map fst (live_registry st)) \<longrightarrow>
            st1 ! a = live_registry st \<and>
            snd (getRegisteredHandlers st2) ! fst (getRegisteredHandlers st2) = live_registry st)"
proof -
  from snap have a: "a = length st" and st1: "st1 = st @ [new_Map (live_registry st)]"
    by (simp_all add: getRegisteredHandlers_def)
  from alloc a have ne: "errorHandlerRegistry \<noteq> a" by simp
  have "st2 ! errorHandlerRegistry = st1 ! errorHandlerRegistry"
    using later ne by (simp add: mutations_other)
  also have "\<dots> = st ! errorHandlerRegistry"
    using alloc st1 by (simp add: nth_append)
  finally have live: "live_registry st2 = live_registry st"
    by (simp add: live_registry_def)
  have copy: "st1 ! a = new_Map (live_registry st)"
    using a st1 by simp
  have again: "snd (getRegisteredHandlers st2) ! fst (getRegisteredHandlers st2) =
      new_Map (live_registry st2)"
    by (simp add: getRegisteredHandlers_def)
  show ?thesis
    using live copy again by (simp add: new_Map_copy)
qed

theorem getRegisteredHandlers_snapshot_witness:
  "errorHandlerRegistry < length [[(TestException, testHandler)]] \<and>
   getRegisteredHandlers [[(TestException, testHandler)]] =
     (1, [[(TestException, testHandler)], [(TestException, testHandler)]]) \<and>
   live_registry (foldl (mutate 1) [[(TestException, testHandler)], [(TestException, testHandler)]] [MapClear]) =
     live_registry [[(TestException, testHandler)]]"
proof -
  have h1: "errorHandlerRegistry < length [[(TestException, testHandler)]]"
    by (simp add: errorHandlerRegistry_def)
  have h2: "getRegisteredHandlers [[(TestException, testHandler)]] =
     (1, [[(TestException, testHandler)], [(TestException, testHandler)]])"
    by (simp add: getRegisteredHandlers_def live_registry_def errorHandlerRegistry_def new_Map_def)
  show ?thesis
    using h1 h2 getRegisteredHandlers_snapshot [OF h1 h2 refl, of "[MapClear]"]
    by simp
qed

section \<open>Properties of the fallback response builder\<close>

subsection \<open>When the builder returns, and what\<close>

lemma stack_first_line_text:
  assumes "stack_is_text he"
  shows "\<exists>v. stack_first_line rt he = Inr v"
proof (cases "opt_member he ''stack''")
  case JUndefined
  then show ?thesis by (simp add: stack_first_line_def is_nullish_def)
next
  case JNull
  then show ?thesis by (simp add: stack_first_line_def is_nullish_def)
next
  case (JStr s)
  then show ?thesis by (simp add: stack_first_line_def is_nullish_def)
qed (use assms in \<open>simp_all add: stack_is_text_def\<close>)

lemma request_context_plain:
  "request_is_plain rt req \<Longrightarrow> \<exists>v. request_context rt req = Inr v"
  by (auto simp: request_is_plain_def request_context_def split: jsval.splits sum.splits)

lemma logContext_returns:
  "stack_is_text he \<Longrightarrow> request_is_plain rt req \<Longrightarrow> \<exists>ctx. logContext rt oe he req = Inr ctx"
  using stack_first_line_text [of he rt] request_context_plain [of rt req]
  by (auto simp: logContext_def)

lemma is_success_primitive:
  assumes "is_primitive sc"
  shows "\<exists>ok. is_success rt sc = Inr ok"
proof (cases sc)
  case JUndefined
  then show ?thesis by (auto simp: is_success_def js_ge_def js_to_number_def)
next
  case JNull
  then show ?thesis by (auto simp: is_success_def js_ge_def js_lt_def js_to_number_def)
next
  case (JBool b)
  then show ?thesis by (auto simp: is_success_def js_ge_def js_lt_def js_to_number_def)
next
  case (JNum n)
  then show ?thesis by (auto simp: is_success_def js_ge_def js_lt_def js_to_number_def)
next
  case (JStr s)
  then show ?thesis
    by (cases "string_to_Number rt s")
      (auto simp: is_success_def js_ge_def js_lt_def js_to_number_def)
qed (use assms in \<open>simp_all add: is_primitive_def\<close>)

lemma HttpResponse_error_shape:
  assumes "HttpResponse_error rt m sc d meta = Inr r"
  shows "\<exists>shown ok.
           r = JObj [HttpResponse, Object_ctor]
                 [(''data'', default_param d JNull), (''message'', shown),
                  (''statusCode'', default_param sc INTERNAL_SERVER_ERROR),
                  (''success'', JBool ok),
                  (''meta'',
                     object_literal ((''timestamp'', JStr (now_iso rt)) #
                       own_entries (default_param meta (object_literal []))))] \<and>
           (\<not> is_nullish (default_param m (JStr ''Error'')) \<longrightarrow>
              shown = default_param m (JStr ''Error'')) \<and>
           is_success rt (default_param sc INTERNAL_SERVER_ERROR) = Inr ok"
proof -
  have a: "default_param (default_param sc INTERNAL_SERVER_ERROR) OK =
      default_param sc INTERNAL_SERVER_ERROR"
    by (simp add: default_param_def)
  have b: "default_param (default_param meta (object_literal [])) (object_literal []) =
      default_param meta (object_literal [])"
    by (simp add: default_param_def)
  from assms show ?thesis
    unfolding HttpResponse_error_def new_HttpResponse_def Let_def a b
    by (auto split: sum.splits if_splits)
qed

lemma HttpResponse_error_returns:
  assumes "\<not> is_nullish (default_param m (JStr ''Error''))"
    and "is_primitive (default_param sc INTERNAL_SERVER_ERROR)"
  shows "\<exists>r. HttpResponse_error rt m sc d meta = Inr r"
proof -
  have a: "default_param (default_param sc INTERNAL_SERVER_ERROR) OK =
      default_param sc INTERNAL_SERVER_ERROR"
    by (simp add: default_param_def)
  from is_success_primitive [OF assms(2)]
  obtain ok where "is_success rt (default_param sc INTERNAL_SERVER_ERROR) = Inr ok" by blast
  with assms(1) show ?thesis
    unfolding HttpResponse_error_def new_HttpResponse_def Let_def a by simp
qed

lemma createFallbackResponse_cases:
  "createFallbackResponse rt oe he req = Inr r \<Longrightarrow>
   HttpResponse_error rt (JStr (fallbackMessage (fallbackStatusCode oe)))
     (fallbackStatusCode oe) JNull (safeMeta rt oe) = Inr r"
  by (auto simp: createFallbackResponse_def split: sum.splits)

lemma fallbackStatusCode_defined: "fallbackStatusCode oe \<noteq> JUndefined"
  by (auto simp: fallbackStatusCode_def js_or_def truthy_def)

lemma fallbackStatusCode_primitive:
  "is_primitive (opt_member oe ''statusCode'') \<Longrightarrow> is_primitive (fallbackStatusCode oe)"
  by (simp add: fallbackStatusCode_def js_or_def is_primitive_def)

lemma safeMeta_fields:
  "js_get (object_literal ((''timestamp'', JStr (now_iso rt)) #
      own_entries (default_param (safeMeta rt oe) (object_literal [])))) ''retryable'' =
     JBool (isRetryableError oe)"
  "js_get (object_literal ((''timestamp'', JStr (now_iso rt)) #
      own_entries (default_param (safeMeta rt oe) (object_literal [])))) ''errorCode'' =
     JStr ''HANDLER_EXECUTION_FAILED''"
  by (simp_all add: default_param_def js_get_def safeMeta_def object_literal_def own_entries_def)

lemma createFallbackResponse_fields:
  assumes "createFallbackResponse rt oe he req = Inr r"
  shows "js_get r ''statusCode'' = fallbackStatusCode oe"
    and "js_get r ''message'' = JStr (fallbackMessage (fallbackStatusCode oe))"
    and "js_get r ''data'' = JNull"
    and "js_get (js_get r ''meta'') ''retryable'' = JBool (isRetryableError oe)"
    and "js_get (js_get r ''meta'') ''errorCode'' = JStr ''HANDLER_EXECUTION_FAILED''"
proof -
  from HttpResponse_error_shape [OF createFallbackResponse_cases [OF assms]]
  obtain shown ok where r: "r = JObj [HttpResponse, Object_ctor]
        [(''data'', default_param JNull JNull), (''message'', shown),
         (''statusCode'', default_param (fallbackStatusCode oe) INTERNAL_SERVER_ERROR),
         (''success'', JBool ok),
         (''meta'',
            object_literal ((''timestamp'', JStr (now_iso rt)) #
              own_entries (default_param (safeMeta rt oe) (object_literal []))))]"
    and shown: "\<not> is_nullish (default_param (JStr (fallbackMessage (fallbackStatusCode oe))) (JStr ''Error'')) \<longrightarrow>
        shown = default_param (JStr (fallbackMessage (fallbackStatusCode oe))) (JStr ''Error'')"
    by blast
  from shown have m: "shown = JStr (fallbackMessage (fallbackStatusCode oe))"
    by (simp add: default_param_def is_nullish_def)
  have meta: "js_get r ''meta'' = object_literal ((''timestamp'', JStr (now_iso rt)) #
              own_entries (default_param (safeMeta rt oe) (object_literal [])))"
    unfolding r by (simp add: js_get_def)
  show "js_get r ''statusCode'' = fallbackStatusCode oe"
    unfolding r using fallbackStatusCode_defined [of oe] by (simp add: js_get_def default_param_def)
  show "js_get r ''message'' = JStr (fallbackMessage (fallbackStatusCode oe))"
    unfolding r m by (simp add: js_get_def)
  show "js_get r ''data'' = JNull"
    unfolding r by (simp add: js_get_def default_param_def)
  show "js_get (js_get r ''meta'') ''retryable'' = JBool (isRetryableError oe)"
    unfolding meta by (rule safeMeta_fields)
  show "js_get (js_get r ''meta'') ''errorCode'' = JStr ''HANDLER_EXECUTION_FAILED''"
    unfolding meta by (rule safeMeta_fields)
qed

lemma createFallbackResponse_returns:
  assumes "stack_is_text he" and "request_is_plain rt req"
    and "is_primitive (opt_member oe ''statusCode'')"
  shows "\<exists>r. createFallbackResponse rt oe he req = Inr r"
proof -
  from logContext_returns [OF assms(1,2), of oe]
  obtain ctx where ctx: "logContext rt oe he req = Inr ctx" by blast
  have "is_primitive (default_param (fallbackStatusCode oe) INTERNAL_SERVER_ERROR)"
    using fallbackStatusCode_primitive [OF assms(3)] fallbackStatusCode_defined [of oe]
    by (simp add: default_param_def)
  moreover have "\<not> is_nullish (default_param (JStr (fallbackMessage (fallbackStatusCode oe))) (JStr ''Error''))"
    by (simp add: default_param_def is_nullish_def)
  ultimately obtain r where "HttpResponse_error rt (JStr (fallbackMessage (fallbackStatusCode oe)))
      (fallbackStatusCode oe) JNull (safeMeta rt oe) = Inr r"
    using HttpResponse_error_returns by blast
  with ctx show ?thesis by (simp add: createFallbackResponse_def)
qed

lemma isRetryableError_denylist:
  "isRetryableError oe =
     (opt_member oe ''statusCode'' \<notin> {BAD_REQUEST, UNAUTHORIZED, FORBIDDEN, NOT_FOUND, CONFLICT})"
  by (auto simp: isRetryableError_def nonRetryableStatusCodes_def truthy_def)

lemma testError_fields:
  "opt_member testError ''statusCode'' = NOT_FOUND"
  "opt_member testError ''metadata'' = JNull"
  "opt_member testError ''message'' = JStr ''User not found''"
  by (simp_all add: testError_def new_BaseException_def js_set_def object_literal_def
      default_param_def js_or_def truthy_def Let_def js_get_def nullish_coalesce_def
      is_nullish_def own_entries_def js_String_def opt_member_def)

lemma plain_fixtures:
  "stack_is_text (new_TypeError msg)"
  "stack_is_text (new_Error msg)"
  "request_is_plain rt test0_req"
  "request_is_plain rt mock_req"
  "request_is_plain rt JNull"
  by (simp_all add: stack_is_text_def new_TypeError_def new_Error_def opt_member_def
      is_nullish_def js_get_def request_is_plain_def test0_req_def mock_req_def
      object_literal_def truthy_def)

subsection \<open>Absent fields\<close>

text \<open>
  Claim C3. Let the value the handler threw have a \<open>stack\<close> that is absent, \<^verbatim>\<open>null\<close>
  or a string, let the request be absent or have a \<open>get\<close> that is absent or returns,
  and let the \<open>statusCode\<close> of the original error be absent or a primitive value.
  Then for every such original error, whatever its other fields, and also when it is
  \<^verbatim>\<open>null\<close> or \<^verbatim>\<open>undefined\<close> itself, \<open>createFallbackResponse\<close> does not throw. The
  response it returns has the error's own \<open>statusCode\<close> when that is truthy and 500 when
  it is absent, \<^verbatim>\<open>null\<close> or otherwise falsy; \<open>retryable\<close> is false exactly when the
  error's \<open>statusCode\<close> is one of 400, 401, 403, 404, 409; and the message is one of five
  fixed texts, the same for every original error with that \<open>statusCode\<close>, whatever its
  message, name or stack and whatever was thrown.
\<close>

theorem createFallbackResponse_total:
  assumes "stack_is_text handlerError" and "request_is_plain rt req"
    and "is_primitive (opt_member originalError ''statusCode'')"
  shows "\<exists>r. createFallbackResponse rt originalError handlerError req = Inr r \<and>
           js_get r ''statusCode'' =
             (if truthy (opt_member originalError ''statusCode'')
              then opt_member originalError ''statusCode'' else INTERNAL_SERVER_ERROR) \<and>
           js_get (js_get r ''meta'') ''retryable'' =
             JBool (opt_member originalError ''statusCode'' \<notin>
                      {BAD_REQUEST, UNAUTHORIZED, FORBIDDEN, NOT_FOUND, CONFLICT}) \<and>
           js_get r ''message'' \<in>
             {JStr ''Requested resource not found'', JStr ''Invalid request data'',
              JStr ''Access denied'', JStr ''Resource conflict occurred'',
              JStr ''Service temporarily unavailable''} \<and>
           (\<forall>other rt' he' req'.
              opt_member other ''statusCode'' = opt_member originalError ''statusCode'' \<and>
              stack_is_text he' \<and> request_is_plain rt' req' \<longrightarrow>
              (\<exists>r'. createFallbackResponse rt' other he' req' = Inr r' \<and>
                    js_get r' ''message'' = js_get r ''message''))"
proof -
  from createFallbackResponse_returns [OF assms]
  obtain r where ret: "createFallbackResponse rt originalError handlerError req = Inr r"
    by blast
  note f = createFallbackResponse_fields [OF ret]
  have status: "js_get r ''statusCode'' =
      (if truthy (opt_member originalError ''statusCode'')
       then opt_member originalError ''statusCode'' else INTERNAL_SERVER_ERROR)"
    unfolding f(1) by (simp add: fallbackStatusCode_def js_or_def)
  have retry: "js_get (js_get r ''meta'') ''retryable'' =
      JBool (opt_member originalError ''statusCode'' \<notin>
               {BAD_REQUEST, UNAUTHORIZED, FORBIDDEN, NOT_FOUND, CONFLICT})"
    unfolding f(4) by (simp only: isRetryableError_denylist)
  have fixed: "js_get r ''message'' \<in>
      {JStr ''Requested resource not found'', JStr ''Invalid request data'',
       JStr ''Access denied'', JStr ''Resource conflict occurred'',
       JStr ''Service temporarily unavailable''}"
    unfolding f(2) by (simp add: fallbackMessage_def)
  have same: "\<exists>r'. createFallbackResponse rt' other he' req' = Inr r' \<and>
        js_get r' ''message'' = js_get r ''message''"
    if eq: "opt_member other ''statusCode'' = opt_member originalError ''statusCode''"
      and shapes: "stack_is_text he'" "request_is_plain rt' req'"
    for other rt' he' req'
  proof -
    have "is_primitive (opt_member other ''statusCode'')"
      using assms(3) eq by simp
    from createFallbackResponse_returns [OF shapes this]
    obtain r' where r': "createFallbackResponse rt' other he' req' = Inr r'" by blast
    have "fallbackStatusCode other = fallbackStatusCode originalError"
      using eq by (simp add: fallbackStatusCode_def)
    then have "js_get r' ''message'' = js_get r ''message''"
      using createFallbackResponse_fields(2) [OF r'] f(2) by simp
    with r' show ?thesis by blast
  qed
  show ?thesis
    using ret status retry fixed same by blast
qed

theorem createFallbackResponse_total_witness:
  "stack_is_text (new_TypeError ''Cannot read properties of null (reading identifier)'') \<and>
   request_is_plain test_runtime test0_req \<and>
   is_primitive (opt_member testError ''statusCode'') \<and>
   (\<exists>r. createFallbackResponse test_runtime testError
           (new_TypeError ''Cannot read properties of null (reading identifier)'') test0_req = Inr r \<and>
        js_get r ''statusCode'' = NOT_FOUND \<and>
        js_get (js_get r ''meta'') ''retryable'' = JBool False)"
proof -
  let ?he = "new_TypeError ''Cannot read properties of null (reading identifier)''"
  have h1: "stack_is_text ?he" by (rule plain_fixtures)
  have h2: "request_is_plain test_runtime test0_req" by (rule plain_fixtures)
  have h3: "is_primitive (opt_member testError ''statusCode'')"
    by (simp add: testError_fields is_primitive_def)
  from createFallbackResponse_total [OF h1 h2 h3]
  obtain r where "createFallbackResponse test_runtime testError ?he test0_req = Inr r"
    and "js_get r ''statusCode'' = NOT_FOUND"
    and "js_get (js_get r ''meta'') ''retryable'' = JBool False"
    by (auto simp: testError_fields truthy_def)
  with h1 h2 h3 show ?thesis by blast
qed

subsection \<open>Retry classification\<close>

text \<open>
  Claim C4. \<open>isRetryableError\<close> is false exactly on the original errors whose
  \<open>statusCode\<close> is one of 400, 401, 403, 404, 409. Every fallback response carries that
  value as \<open>meta.retryable\<close>: false for those five codes and true for every other
  \<open>statusCode\<close>, an absent one included. A response is returned whenever the thrown
  value, the request and the status code have the shapes above.
\<close>

theorem fallback_retryable_denylist:
  "isRetryableError originalError =
     (opt_member originalError ''statusCode'' \<notin>
        {BAD_REQUEST, UNAUTHORIZED, FORBIDDEN, NOT_FOUND, CONFLICT}) \<and>
   (\<forall>r. createFallbackResponse rt originalError handlerError req = Inr r \<longrightarrow>
      (opt_member originalError ''statusCode'' \<in>
         {BAD_REQUEST, UNAUTHORIZED, FORBIDDEN, NOT_FOUND, CONFLICT} \<longrightarrow>
       js_get (js_get r ''meta'') ''retryable'' = JBool False) \<and>
      (opt_member originalError ''statusCode'' \<notin>
         {BAD_REQUEST, UNAUTHORIZED, FORBIDDEN, NOT_FOUND, CONFLICT} \<longrightarrow>
       js_get (js_get r ''meta'') ''retryable'' = JBool True)) \<and>
   (stack_is_text handlerError \<and> request_is_plain rt req \<and>
      is_primitive (opt_member originalError ''statusCode'') \<longrightarrow>
      (\<exists>r. createFallbackResponse rt originalError handlerError req = Inr r))"
proof (intro conjI allI impI)
  show "isRetryableError originalError =
     (opt_member originalError ''statusCode'' \<notin>
        {BAD_REQUEST, UNAUTHORIZED, FORBIDDEN, NOT_FOUND, CONFLICT})"
    by (rule isRetryableError_denylist)
next
  fix r
  assume r: "createFallbackResponse rt originalError handlerError req = Inr r"
    and "opt_member originalError ''statusCode'' \<in>
         {BAD_REQUEST, UNAUTHORIZED, FORBIDDEN, NOT_FOUND, CONFLICT}"
  then show "js_get (js_get r ''meta'') ''retryable'' = JBool False"
    using createFallbackResponse_fields(4) [OF r]
    by (simp only: isRetryableError_denylist) simp
next
  fix r
  assume r: "createFallbackResponse rt originalError handlerError req = Inr r"
    and "opt_member originalError ''statusCode'' \<notin>
         {BAD_REQUEST, UNAUTHORIZED, FORBIDDEN, NOT_FOUND, CONFLICT}"
  then show "js_get (js_get r ''meta'') ''retryable'' = JBool True"
    using createFallbackResponse_fields(4) [OF r]
    by (simp only: isRetryableError_denylist) simp
next
  assume "stack_is_text handlerError \<and> request_is_plain rt req \<and>
      is_primitive (opt_member originalError ''statusCode'')"
  then show "\<exists>r. createFallbackResponse rt originalError handlerError req = Inr r"
    by (simp add: createFallbackResponse_returns)
qed

theorem fallback_retryable_denylist_witness:
  "stack_is_text (new_Error ''Handler failed'') \<and> request_is_plain test_runtime JNull \<and>
   (\<exists>r. createFallbackResponse test_runtime (object_literal [(''statusCode'', CONFLICT)])
           (new_Error ''Handler failed'') JNull = Inr r \<and>
        js_get (js_get r ''meta'') ''retryable'' = JBool False) \<and>
   (\<exists>r. createFallbackResponse test_runtime (object_literal [(''statusCode'', JNum 999)])
           (new_Error ''Handler failed'') JNull = Inr r \<and>
        js_get (js_get r ''meta'') ''retryable'' = JBool True) \<and>
   (\<exists>r. createFallbackResponse test_runtime (object_literal [])
           (new_Error ''Handler failed'') JNull = Inr r \<and>
        js_get (js_get r ''meta'') ''retryable'' = JBool True)"
proof -
  let ?he = "new_Error ''Handler failed''"
  have h1: "stack_is_text ?he" by (rule plain_fixtures)
  have h2: "request_is_plain test_runtime JNull" by (rule plain_fixtures)
  have s: "opt_member (object_literal [(''statusCode'', CONFLICT)]) ''statusCode'' = CONFLICT"
    "opt_member (object_literal [(''statusCode'', JNum 999)]) ''statusCode'' = JNum 999"
    "opt_member (object_literal []) ''statusCode'' = JUndefined"
    by (simp_all add: opt_member_def object_literal_def is_nullish_def js_get_def)
  have p: "is_primitive CONFLICT" "is_primitive (JNum 999)" "is_primitive JUndefined"
    by (simp_all add: is_primitive_def)
  from fallback_retryable_denylist [of "object_literal [(''statusCode'', CONFLICT)]" test_runtime ?he JNull]
  have a: "\<exists>r. createFallbackResponse test_runtime (object_literal [(''statusCode'', CONFLICT)])
           ?he JNull = Inr r \<and> js_get (js_get r ''meta'') ''retryable'' = JBool False"
    using h1 h2 p by (auto simp: s)
  from fallback_retryable_denylist [of "object_literal [(''statusCode'', JNum 999)]" test_runtime ?he JNull]
  have b: "\<exists>r. createFallbackResponse test_runtime (object_literal [(''statusCode'', JNum 999)])
           ?he JNull = Inr r \<and> js_get (js_get r ''meta'') ''retryable'' = JBool True"
    using h1 h2 p by (auto simp: s)
  from fallback_retryable_denylist [of "object_literal []" test_runtime ?he JNull]
  have c: "\<exists>r. createFallbackResponse test_runtime (object_literal [])
           ?he JNull = Inr r \<and> js_get (js_get r ''meta'') ''retryable'' = JBool True"
    using h1 h2 p by (auto simp: s)
  from h1 h2 a b c show ?thesis by blast
qed

subsection \<open>Message and payload\<close>

text \<open>
  Claim C5. For every original error, every handler error and every request, a
  fallback response has \<^verbatim>\<open>null\<close> as its data, and its message is fixed by its own
  status code: 404, 400, 403 and 409 have their texts and every other status has
  "Service temporarily unavailable". A response is returned whenever the thrown value,
  the request and the status code have the shapes above.
\<close>

theorem fallback_message_by_status:
  "(\<forall>r. createFallbackResponse rt originalError handlerError req = Inr r \<longrightarrow>
      js_get r ''data'' = JNull \<and>
      js_get r ''message'' =
        (if js_get r ''statusCode'' = NOT_FOUND then JStr ''Requested resource not found''
         else if js_get r ''statusCode'' = BAD_REQUEST then JStr ''Invalid request data''
         else if js_get r ''statusCode'' = FORBIDDEN then JStr ''Access denied''
         else if js_get r ''statusCode'' = CONFLICT then JStr ''Resource conflict occurred''
         else JStr ''Service temporarily unavailable'')) \<and>
   (stack_is_text handlerError \<and> request_is_plain rt req \<and>
      is_primitive (opt_member originalError ''statusCode'') \<longrightarrow>
      (\<exists>r. createFallbackResponse rt originalError handlerError req = Inr r))"
proof (intro conjI allI impI)
  fix r
  assume r: "createFallbackResponse rt originalError handlerError req = Inr r"
  note f = createFallbackResponse_fields [OF r]
  show "js_get r ''data'' = JNull" by (rule f(3))
  show "js_get r ''message'' =
      (if js_get r ''statusCode'' = NOT_FOUND then JStr ''Requested resource not found''
       else if js_get r ''statusCode'' = BAD_REQUEST then JStr ''Invalid request data''
       else if js_get r ''statusCode'' = FORBIDDEN then JStr ''Access denied''
       else if js_get r ''statusCode'' = CONFLICT then JStr ''Resource conflict occurred''
       else JStr ''Service temporarily unavailable'')"
    unfolding f(1) f(2) by (simp add: fallbackMessage_def)
next
  assume "stack_is_text handlerError \<and> request_is_plain rt req \<and>
      is_primitive (opt_member originalError ''statusCode'')"
  then show "\<exists>r. createFallbackResponse rt originalError handlerError req = Inr r"
    by (simp add: createFallbackResponse_returns)
qed

theorem fallback_message_by_status_witness:
  "stack_is_text (new_Error ''Handler failed'') \<and> request_is_plain test_runtime mock_req \<and>
   (\<exists>r. createFallbackResponse test_runtime (object_literal [(''statusCode'', FORBIDDEN)])
           (new_Error ''Handler failed'') mock_req = Inr r \<and>
        js_get r ''data'' = JNull \<and> js_get r ''statusCode'' = FORBIDDEN \<and>
        js_get r ''message'' = JStr ''Access denied'')"
proof -
  let ?he = "new_Error ''Handler failed''"
  let ?oe = "object_literal [(''statusCode'', FORBIDDEN)]"
  have h1: "stack_is_text ?he" by (rule plain_fixtures)
  have h2: "request_is_plain test_runtime mock_req" by (rule plain_fixtures)
  have sc: "opt_member ?oe ''statusCode'' = FORBIDDEN"
    by (simp add: opt_member_def object_literal_def is_nullish_def js_get_def)
  have h3: "is_primitive (opt_member ?oe ''statusCode'')"
    unfolding sc by (simp add: is_primitive_def)
  from fallback_message_by_status [of test_runtime ?oe ?he mock_req] h1 h2 h3
  obtain r where r: "createFallbackResponse test_runtime ?oe ?he mock_req = Inr r"
    and d: "js_get r ''data'' = JNull"
    and m: "js_get r ''message'' =
        (if js_get r ''statusCode'' = NOT_FOUND then JStr ''Requested resource not found''
         else if js_get r ''statusCode'' = BAD_REQUEST then JStr ''Invalid request data''
         else if js_get r ''statusCode'' = FORBIDDEN then JStr ''Access denied''
         else if js_get r ''statusCode'' = CONFLICT then JStr ''Resource conflict occurred''
         else JStr ''Service temporarily unavailable'')"
    by blast
  have st: "js_get r ''statusCode'' = FORBIDDEN"
    using createFallbackResponse_fields(1) [OF r]
    by (simp add: fallbackStatusCode_def sc js_or_def truthy_def)
  from m have "js_get r ''message'' = JStr ''Access denied''"
    unfolding st by simp
  with h1 h2 r d st show ?thesis by blast
qed

section \<open>Properties of the safe wrapper\<close>

text \<open>
  Where the wrapper does contain a failure: the handler throws, or returns a promise
  that rejects with, a value whose \<open>stack\<close> is absent, \<^verbatim>\<open>null\<close> or a string. The
  dispatch then returns the fallback response (for a promise, a promise fulfilled with
  it), with the status of the original error and the code
  \<^verbatim>\<open>HANDLER_EXECUTION_FAILED\<close>.
\<close>

lemma truthy_not_nullish: "truthy v \<Longrightarrow> \<not> is_nullish v"
  by (auto simp: truthy_def is_nullish_def)

lemma response_not_promise:
  "HttpResponse_error rt m sc d meta = Inr r \<Longrightarrow> \<not> is_promise r"
  by (drule HttpResponse_error_shape) (auto simp: is_promise_def)

lemma createSafeHandler_sync_failure:
  assumes "call rt handler [err, req, res] = Inl he"
  shows "createSafeHandler rt handler err req res = createFallbackResponse rt err he req"
  using assms by (simp add: createSafeHandler_def)

lemma createSafeHandler_async_failure:
  assumes "call rt handler [err, req, res] = Inr (JRejected he)"
    and "createFallbackResponse rt err he req = Inr r"
  shows "createSafeHandler rt handler err req res = Inr (JFulfilled r)"
proof -
  have p: "is_promise (JRejected he)" "truthy (JRejected he)"
    "is_function (js_get (JRejected he) ''then'')"
    by (simp_all add: is_promise_def truthy_def js_get_def promise_member_def is_function_def)
  have np: "\<not> is_promise r"
    using response_not_promise [OF createFallbackResponse_cases [OF assms(2)]] .
  show ?thesis
    using assms p np by (simp add: createSafeHandler_def promise_catch_def)
qed

lemma handleWithRegistry_contains_failure:
  assumes found: "findErrorHandler reg err = Inr (Some handler)"
    and named: "\<not> is_nullish err" "is_function (js_get err ''constructor'')"
    and shape: "stack_is_text he" and plain: "request_is_plain rt req"
    and prim: "is_primitive (opt_member err ''statusCode'')"
  shows "call rt handler [err, req, res] = Inl he \<longrightarrow>
           (\<exists>r. handleWithRegistry rt reg err req res True = Inr r \<and>
              js_get r ''statusCode'' = fallbackStatusCode err \<and>
              js_get (js_get r ''meta'') ''errorCode'' = JStr ''HANDLER_EXECUTION_FAILED'')"
    and "call rt handler [err, req, res] = Inr (JRejected he) \<longrightarrow>
           (\<exists>r. handleWithRegistry rt reg err req res True = Inr (JFulfilled r) \<and>
              js_get r ''statusCode'' = fallbackStatusCode err \<and>
              js_get (js_get r ''meta'') ''errorCode'' = JStr ''HANDLER_EXECUTION_FAILED'')"
proof -
  from named(2) obtain c where c: "js_get err ''constructor'' = JFun c"
    by (auto simp: is_function_def split: jsval.splits)
  have name: "\<exists>n. handlerName rt err = Inr n"
    using named(1) c
    by (simp add: handlerName_def member_def is_nullish_def js_get_def js_String_def)
  from createFallbackResponse_returns [OF shape plain prim]
  obtain r where r: "createFallbackResponse rt err he req = Inr r" by blast
  note f = createFallbackResponse_fields [OF r]
  show "call rt handler [err, req, res] = Inl he \<longrightarrow>
           (\<exists>r. handleWithRegistry rt reg err req res True = Inr r \<and>
              js_get r ''statusCode'' = fallbackStatusCode err \<and>
              js_get (js_get r ''meta'') ''errorCode'' = JStr ''HANDLER_EXECUTION_FAILED'')"
    using found name r f(1) f(5)
    by (auto simp: handleWithRegistry_def createSafeHandler_sync_failure)
  show "call rt handler [err, req, res] = Inr (JRejected he) \<longrightarrow>
           (\<exists>r. handleWithRegistry rt reg err req res True = Inr (JFulfilled r) \<and>
              js_get r ''statusCode'' = fallbackStatusCode err \<and>
              js_get (js_get r ''meta'') ''errorCode'' = JStr ''HANDLER_EXECUTION_FAILED'')"
    using found name r f(1) f(5)
    by (auto simp: handleWithRegistry_def createSafeHandler_async_failure)
qed

text \<open>
  Claim C1, at an input where the code breaks it. A handler registered for
  \<open>TestException\<close> runs \<^verbatim>\<open>throw { stack: 42 }\<close>. The wrapper catches the value and
  calls \<open>createFallbackResponse\<close>, which evaluates
  \<^verbatim>\<open>handlerError?.stack?.split('\n')\<close> on the number 42: a \<^verbatim>\<open>TypeError\<close>, raised
  inside the \<^verbatim>\<open>catch\<close> block. It leaves \<open>handleWithRegistry\<close>, with the safe wrapper
  enabled, and no response is returned.
\<close>

theorem handleWithRegistry_odd_stack_propagates:
  "handleWithRegistry test_runtime [(TestException, oddStackHandler)]
     (JObj TestException_chain [(''statusCode'', BAD_REQUEST)]) mock_req JNull True =
   Inl (new_TypeError ''handlerError?.stack?.split is not a function'')"
proof -
  let ?err = "JObj TestException_chain [(''statusCode'', BAD_REQUEST)]"
  have find: "findErrorHandler [(TestException, oddStackHandler)] ?err = Inr (Some oddStackHandler)"
    by (simp add: findErrorHandler_def member_def is_nullish_def js_get_def TestException_chain_def)
  have name: "handlerName test_runtime ?err = Inr ''TestExceptionHandler''"
    by (simp add: handlerName_def member_def is_nullish_def js_get_def TestException_chain_def
        js_String_def TestException_def)
  have thrown: "call test_runtime oddStackHandler [?err, mock_req, JNull] =
      Inl (JObj [Object_ctor] [(''stack'', JNum 42)])"
    by (simp add: test_runtime_def test_call_def fixture_defs object_literal_def)
  have line: "stack_first_line test_runtime (JObj [Object_ctor] [(''stack'', JNum 42)]) =
      Inl (new_TypeError ''handlerError?.stack?.split is not a function'')"
    by (simp add: stack_first_line_def opt_member_def is_nullish_def js_get_def)
  show ?thesis
    by (simp add: handleWithRegistry_def find name createSafeHandler_def thrown
        createFallbackResponse_def logContext_def line)
qed

section \<open>Properties of the terminal middleware\<close>

text \<open>
  Claim C6. When the response object reports \<open>headersSent\<close>, the middleware calls
  \<open>next\<close> with the error it was given, for every error value, registry, request and
  configuration, and does nothing else: no \<open>status\<close>, \<open>type\<close> or \<open>send\<close> is called
  on the response, and nothing is thrown.
\<close>

theorem globalErrorHandler_headers_sent:
  assumes "\<not> is_nullish res" and "truthy (js_get res ''headersSent'')"
  shows "globalErrorHandler rt opts reg err req res = ([Next err], None)"
  using assms by (simp add: globalErrorHandler_def member_def)

theorem globalErrorHandler_headers_sent_witness:
  "\<not> is_nullish (js_set mock_res ''headersSent'' (JBool True)) \<and>
   truthy (js_get (js_set mock_res ''headersSent'' (JBool True)) ''headersSent'') \<and>
   globalErrorHandler test_runtime default_options [(TestException, testHandler)]
     (new_Error ''after send'') mock_req (js_set mock_res ''headersSent'' (JBool True)) =
     ([Next (new_Error ''after send'')], None)"
proof -
  have h1: "\<not> is_nullish (js_set mock_res ''headersSent'' (JBool True))"
    by (simp add: js_set_def mock_res_def object_literal_def is_nullish_def)
  have h2: "truthy (js_get (js_set mock_res ''headersSent'' (JBool True)) ''headersSent'')"
    by (simp add: js_set_def mock_res_def object_literal_def js_get_def truthy_def)
  show ?thesis
    using h1 h2 globalErrorHandler_headers_sent [OF h1 h2] by simp
qed

lemma send_ready:
  assumes "transport_ready res"
  shows "send opts this res =
     ([Status (if SET_DEFAULT_HTTP_STATUS_CODE opts then DEFAULT_HTTP_STATUS_CODE opts
               else js_get this ''statusCode''),
       ContentType (JStr ''application/json''), Send (response_body opts this)], None)"
  using assms by (simp add: send_def transport_ready_def Let_def)

lemma unknown_response:
  assumes "truthy message"
  shows "HttpResponse_error rt message INTERNAL_SERVER_ERROR JUndefined JUndefined =
     Inr (JObj [HttpResponse, Object_ctor]
            [(''data'', JNull), (''message'', message), (''statusCode'', INTERNAL_SERVER_ERROR),
             (''success'', JBool False),
             (''meta'', object_literal [(''timestamp'', JStr (now_iso rt))])])"
proof -
  from assms have m: "message \<noteq> JUndefined" "\<not> is_nullish message"
    by (auto simp: truthy_def is_nullish_def)
  then show ?thesis
    by (simp add: HttpResponse_error_def new_HttpResponse_def default_param_def Let_def
        is_success_def js_ge_def js_lt_def js_to_number_def object_literal_def own_entries_def)
qed

lemma unknown_response_body:
  assumes "truthy message"
  shows "response_body opts
     (JObj [HttpResponse, Object_ctor]
        [(''data'', JNull), (''message'', message), (''statusCode'', INTERNAL_SERVER_ERROR),
         (''success'', JBool False),
         (''meta'', object_literal [(''timestamp'', JStr (now_iso rt))])]) =
     object_literal
       ([(''success'', JBool False), (''message'', message)] @
        (if USE_STATUS_CODE_IN_RESPONSE opts then [(''statusCode'', INTERNAL_SERVER_ERROR)] else []) @
        [(''meta'', object_literal [(''timestamp'', JStr (now_iso rt))])])"
  by (simp add: response_body_def js_get_def is_nullish_def truthy_def object_literal_def
      own_entries_def)

lemma unknown_response_status:
  "js_get (JObj [HttpResponse, Object_ctor]
        [(''data'', JNull), (''message'', message), (''statusCode'', INTERNAL_SERVER_ERROR),
         (''success'', JBool False),
         (''meta'', object_literal [(''timestamp'', JStr (now_iso rt))])]) ''statusCode'' =
     INTERNAL_SERVER_ERROR"
  by (simp add: js_get_def)

text \<open>
  Claim C7, as amended. Let the response object be ready, and let the error be no
  \<open>HttpResponse\<close>, no \<open>BaseException\<close> and without a registered handler; outside
  production let it not be \<^verbatim>\<open>null\<close> or \<^verbatim>\<open>undefined\<close>. The middleware sends a body
  with \<open>success\<close> false and, when the configuration copies it, \<open>statusCode\<close> 500. The
  transport status is 500 unless the configuration forces its default status code. The
  message is "Internal Server Error" in production; elsewhere it is the error's own
  message when that is truthy, and "Internal Server Error" when the error's message is
  empty or absent.
\<close>

theorem globalErrorHandler_unknown_failure:
  assumes ready: "transport_ready res"
    and not_response: "instanceof err HttpResponse \<noteq> Inr True"
    and not_exception: "instanceof err BaseException \<noteq> Inr True"
    and no_handler: "findErrorHandler reg err = Inr None"
    and readable: "node_env rt = Some ''production'' \<or> \<not> is_nullish err"
  shows "globalErrorHandler rt opts reg err req res =
     ([Status (if SET_DEFAULT_HTTP_STATUS_CODE opts then DEFAULT_HTTP_STATUS_CODE opts
               else INTERNAL_SERVER_ERROR),
       ContentType (JStr ''application/json''),
       Send (object_literal
               ([(''success'', JBool False),
                 (''message'',
                    (if node_env rt = Some ''production'' then JStr ''Internal Server Error''
                     else if truthy (js_get err ''message'') then js_get err ''message''
                     else JStr ''Internal Server Error''))] @
                (if USE_STATUS_CODE_IN_RESPONSE opts
                 then [(''statusCode'', INTERNAL_SERVER_ERROR)] else []) @
                [(''meta'', object_literal [(''timestamp'', JStr (now_iso rt))])]))],
      None)"
proof -
  let ?m = "(if node_env rt = Some ''production'' then JStr ''Internal Server Error''
             else if truthy (js_get err ''message'') then js_get err ''message''
             else JStr ''Internal Server Error'')"
  let ?r = "JObj [HttpResponse, Object_ctor]
        [(''data'', JNull), (''message'', ?m), (''statusCode'', INTERNAL_SERVER_ERROR),
         (''success'', JBool False),
         (''meta'', object_literal [(''timestamp'', JStr (now_iso rt))])]"
  have msg: "unknown_error_message rt err = Inr ?m"
    using readable by (auto simp: unknown_error_message_def member_def js_or_def)
  have tm: "truthy ?m" by (simp add: truthy_def)
  from ready have hs: "member res ''headersSent'' = Inr (js_get res ''headersSent'')"
      "\<not> truthy (js_get res ''headersSent'')"
    by (auto simp: transport_ready_def member_def dest: truthy_not_nullish)
  have custom: "handleWithRegistry rt reg err req res True = Inr JNull"
    using no_handler by (simp add: handleWithRegistry_def)
  have "globalErrorHandler rt opts reg err req res = send opts ?r res"
    using hs not_response not_exception custom msg unknown_response [OF tm, of rt]
    by (simp add: globalErrorHandler_def truthy_def)
  then show ?thesis
    by (simp only: send_ready [OF ready] unknown_response_body [OF tm] unknown_response_status)
qed

theorem globalErrorHandler_unknown_failure_witness:
  "transport_ready mock_res \<and>
   globalErrorHandler test_runtime default_options [(TestException, testHandler)]
       (new_Error ''boom'') mock_req mock_res =
     ([Status INTERNAL_SERVER_ERROR, ContentType (JStr ''application/json''),
       Send (JObj [Object_ctor]
               [(''success'', JBool False), (''message'', JStr ''boom''),
                (''statusCode'', INTERNAL_SERVER_ERROR),
                (''meta'', JObj [Object_ctor] [(''timestamp'', JStr ''2025-01-01T00:00:00.000Z'')])])],
      None) \<and>
   globalErrorHandler production_runtime default_options [(TestException, testHandler)]
       (new_Error ''boom'') mock_req mock_res =
     ([Status INTERNAL_SERVER_ERROR, ContentType (JStr ''application/json''),
       Send (JObj [Object_ctor]
               [(''success'', JBool False), (''message'', JStr ''Internal Server Error''),
                (''statusCode'', INTERNAL_SERVER_ERROR),
                (''meta'', JObj [Object_ctor] [(''timestamp'', JStr ''2025-01-01T00:00:00.000Z'')])])],
      None)"
proof -
  let ?reg = "[(TestException, testHandler)]"
  have ready: "transport_ready mock_res"
    by (simp add: transport_ready_def mock_res_def object_literal_def truthy_def js_get_def
        is_function_def)
  have inst: "instanceof (new_Error ''boom'') HttpResponse \<noteq> Inr True"
    "instanceof (new_Error ''boom'') BaseException \<noteq> Inr True"
    by (simp_all add: instanceof_def proto_chain_def new_Error_def ctor_defs)
  have none: "findErrorHandler ?reg (new_Error ''boom'') = Inr None"
    by (simp add: findErrorHandler_def member_def is_nullish_def js_get_def new_Error_def
        instanceof_def proto_chain_def fixture_defs ctor_defs)
  have nn: "\<not> is_nullish (new_Error ''boom'')"
    by (simp add: is_nullish_def new_Error_def)
  have m: "js_get (new_Error ''boom'') ''message'' = JStr ''boom''"
    by (simp add: new_Error_def js_get_def)
  have env: "node_env test_runtime = Some ''test''" "node_env production_runtime = Some ''production''"
    "now_iso test_runtime = ''2025-01-01T00:00:00.000Z''"
    "now_iso production_runtime = ''2025-01-01T00:00:00.000Z''"
    by (simp_all add: test_runtime_def production_runtime_def)
  note dev = globalErrorHandler_unknown_failure [OF ready inst none disjI2 [OF nn],
      of test_runtime default_options mock_req]
  note prod = globalErrorHandler_unknown_failure [OF ready inst none disjI2 [OF nn],
      of production_runtime default_options mock_req]
  from dev have a: "globalErrorHandler test_runtime default_options ?reg
       (new_Error ''boom'') mock_req mock_res =
     ([Status INTERNAL_SERVER_ERROR, ContentType (JStr ''application/json''),
       Send (JObj [Object_ctor]
               [(''success'', JBool False), (''message'', JStr ''boom''),
                (''statusCode'', INTERNAL_SERVER_ERROR),
                (''meta'', JObj [Object_ctor] [(''timestamp'', JStr ''2025-01-01T00:00:00.000Z'')])])],
      None)"
    by (simp add: env m truthy_def default_options_def object_literal_def)
  from prod have b: "globalErrorHandler production_runtime default_options ?reg
       (new_Error ''boom'') mock_req mock_res =
     ([Status INTERNAL_SERVER_ERROR, ContentType (JStr ''application/json''),
       Send (JObj [Object_ctor]
               [(''success'', JBool False), (''message'', JStr ''Internal Server Error''),
                (''statusCode'', INTERNAL_SERVER_ERROR),
                (''meta'', JObj [Object_ctor] [(''timestamp'', JStr ''2025-01-01T00:00:00.000Z'')])])],
      None)"
    by (simp add: env default_options_def object_literal_def)
  from ready a b show ?thesis by blast
qed

text \<open>
  Outside production, \<^verbatim>\<open>new Error('')\<close> is answered with "Internal Server Error",
  which is not the error's own message.
\<close>

theorem globalErrorHandler_empty_message_counterexample:
  "node_env test_runtime \<noteq> Some ''production'' \<and>
   js_get (new_Error []) ''message'' = JStr [] \<and>
   globalErrorHandler test_runtime default_options [] (new_Error []) mock_req mock_res =
     ([Status INTERNAL_SERVER_ERROR, ContentType (JStr ''application/json''),
       Send (JObj [Object_ctor]
               [(''success'', JBool False), (''message'', JStr ''Internal Server Error''),
                (''statusCode'', INTERNAL_SERVER_ERROR),
                (''meta'', JObj [Object_ctor] [(''timestamp'', JStr ''2025-01-01T00:00:00.000Z'')])])],
      None)"
proof -
  have env: "node_env test_runtime \<noteq> Some ''production''"
    by (simp add: test_runtime_def)
  have empty: "js_get (new_Error []) ''message'' = JStr []"
    by (simp add: new_Error_def js_get_def)
  have ready: "transport_ready mock_res"
    by (simp add: transport_ready_def mock_res_def object_literal_def truthy_def js_get_def
        is_function_def)
  have msg: "unknown_error_message test_runtime (new_Error []) = Inr (JStr ''Internal Server Error'')"
    using env empty
    by (simp add: unknown_error_message_def member_def js_or_def truthy_def is_nullish_def new_Error_def)
  have hs: "member mock_res ''headersSent'' = Inr (JBool False)"
    by (simp add: member_def mock_res_def object_literal_def is_nullish_def js_get_def)
  have inst: "instanceof (new_Error []) HttpResponse = Inr False"
    "instanceof (new_Error []) BaseException = Inr False"
    by (simp_all add: instanceof_def proto_chain_def new_Error_def ctor_defs)
  have custom: "handleWithRegistry test_runtime [] (new_Error []) mock_req mock_res True = Inr JNull"
    by (simp add: handleWithRegistry_def findErrorHandler_def)
  have tm: "truthy (JStr ''Internal Server Error'')" by (simp add: truthy_def)
  have "globalErrorHandler test_runtime default_options [] (new_Error []) mock_req mock_res =
      send default_options
        (JObj [HttpResponse, Object_ctor]
           [(''data'', JNull), (''message'', JStr ''Internal Server Error''),
            (''statusCode'', INTERNAL_SERVER_ERROR), (''success'', JBool False),
            (''meta'', object_literal [(''timestamp'', JStr (now_iso test_runtime))])]) mock_res"
    by (simp add: globalErrorHandler_def hs inst custom msg truthy_def
        unknown_response [OF tm, of test_runtime])
  also have "\<dots> =
      ([Status (if SET_DEFAULT_HTTP_STATUS_CODE default_options
                then DEFAULT_HTTP_STATUS_CODE default_options else INTERNAL_SERVER_ERROR),
        ContentType (JStr ''application/json''),
        Send (object_literal
                ([(''success'', JBool False), (''message'', JStr ''Internal Server Error'')] @
                 (if USE_STATUS_CODE_IN_RESPONSE default_options
                  then [(''statusCode'', INTERNAL_SERVER_ERROR)] else []) @
                 [(''meta'', object_literal [(''timestamp'', JStr (now_iso test_runtime))])]))],
       None)"
    by (simp only: send_ready [OF ready] unknown_response_body [OF tm] unknown_response_status)
  also have "\<dots> = ([Status INTERNAL_SERVER_ERROR, ContentType (JStr ''application/json''),
       Send (JObj [Object_ctor]
               [(''success'', JBool False), (''message'', JStr ''Internal Server Error''),
                (''statusCode'', INTERNAL_SERVER_ERROR),
                (''meta'', JObj [Object_ctor] [(''timestamp'', JStr ''2025-01-01T00:00:00.000Z'')])])],
      None)"
    by (simp add: default_options_def object_literal_def test_runtime_def)
  finally show ?thesis using env empty by simp
qed

end
